theory Spec2Isabelle
  imports Complex_Main "HOL-Library.Signed_Division"
begin

section \<open>Data model\<close>

text \<open>
  JSON values as the handlers see them after \<open>JSON.parse\<close>. An object is an association
  list; reading a key takes the first binding, \<open>delete\<close> removes every binding of the key.
  A key that is absent reads as \<open>undefined\<close>, modelled by \<open>None\<close>.
\<close>

datatype json =
    JNull
  | JBool bool
  | JNum int
  | JStr string
  | JArr "json list"
  | JObj "(string \<times> json) list"

type_synonym jobject = "(string \<times> json) list"

definition field :: "string \<Rightarrow> jobject \<Rightarrow> json option" where
  "field k obj = map_of obj k"

definition delete_key :: "string \<Rightarrow> jobject \<Rightarrow> jobject" where
  "delete_key k obj = filter (\<lambda>kv. fst kv \<noteq> k) obj"

text \<open>JavaScript truthiness of a value that may be \<open>undefined\<close>.\<close>

fun truthy :: "json option \<Rightarrow> bool" where
  "truthy None = False"
| "truthy (Some JNull) = False"
| "truthy (Some (JBool b)) = b"
| "truthy (Some (JNum n)) = (n \<noteq> 0)"
| "truthy (Some (JStr s)) = (s \<noteq> [])"
| "truthy (Some (JArr xs)) = True"
| "truthy (Some (JObj kvs)) = True"

text \<open>
  Truthiness of an optional string (\<open>null\<close> and the empty string are falsy) and \<open>x || y\<close> on
  an optional string and on an optional number.
\<close>

definition strTruthy :: "string option \<Rightarrow> bool" where
  "strTruthy x = (case x of None \<Rightarrow> False | Some s \<Rightarrow> s \<noteq> [])"

definition numOr :: "int option \<Rightarrow> int \<Rightarrow> int" where
  "numOr x dflt = (case x of None \<Rightarrow> dflt | Some n \<Rightarrow> if n = 0 then dflt else n)"

definition strOr :: "string option \<Rightarrow> string option \<Rightarrow> string option" where
  "strOr x y = (if strTruthy x then x else y)"

text \<open>
  Amounts of wei are \<open>BigInt\<close> values in the code, stored in \<open>TEXT\<close> columns as their decimal
  rendering; the model keeps the integer. \<open>BigInt\<close> division truncates toward zero, which
  is \<open>sdiv\<close> on \<open>int\<close>.
\<close>

type_synonym wei = int

datatype match_status = Waiting | Open | Active | Completed

text \<open>
  The rows of the tables \<open>agents\<close>, \<open>matches\<close>, \<open>submissions\<close> and \<open>payments\<close> of
  database.js. A table is the list of its rows in the order of insertion. Timestamps are
  natural numbers; the current time (\<open>CURRENT_TIMESTAMP\<close>) and the random identifiers
  (\<open>crypto.randomUUID()\<close>, \<open>crypto.randomBytes\<close>) are arguments of the functions that use
  them.
\<close>

record agent_row =
  a_id :: string
  name :: string
  endpoint :: string
  description :: "string option"
  api_key :: string
  elo :: int
  wins :: int
  losses :: int
  draws :: int
  erc8004_identity :: "string option"
  wallet :: "string option"

record match_row =
  m_id :: string
  agent1_id :: string
  agent2_id :: string
  challenge_type :: string
  challenge_data :: jobject
  status :: match_status
  winner_id :: "string option"
  started_at :: "nat option"
  completed_at :: "nat option"
  time_limit :: int
  entry_fee_wei :: wei
  creator_id :: "string option"
  opponent_id :: "string option"
  pot_wei :: wei
  arena_cut_wei :: wei
  winner_payout_wei :: wei
  challenge_seed :: "string option"
  is_practice :: int
  elo_change_agent1 :: int
  elo_change_agent2 :: int

record submission_row =
  s_id :: string
  match_id :: string
  agent_id :: string
  solution :: string
  correct :: bool
  sub_score :: int
  submitted_at :: nat

record payment_row =
  p_id :: string
  p_agent_id :: string
  tx_hash :: string
  amount_wei :: wei
  from_wallet :: string
  p_match_id :: "string option"

record db =
  agents :: "agent_row list"
  matches :: "match_row list"
  submissions :: "submission_row list"
  payments :: "payment_row list"

datatype error =
    TypeError
  | ConstraintError
  | GenerationError
  | PaymentError
  | PracticeBotNotFound
  | IntegerOverflow

section \<open>database.js\<close>

definition getAgent :: "db \<Rightarrow> string \<Rightarrow> agent_row option" where
  "getAgent d i = find (\<lambda>a. a_id a = i) (agents d)"

definition getAgentByApiKey :: "db \<Rightarrow> string \<Rightarrow> agent_row option" where
  "getAgentByApiKey d k = find (\<lambda>a. api_key a = k) (agents d)"

definition getMatch :: "db \<Rightarrow> string \<Rightarrow> match_row option" where
  "getMatch d i = find (\<lambda>m. m_id m = i) (matches d)"

definition getPracticeBot :: "db \<Rightarrow> agent_row option" where
  "getPracticeBot d = find (\<lambda>a. name a = ''PracticeBot'') (agents d)"

text \<open>\<open>UPDATE matches SET ... WHERE id = ?\<close> and \<open>UPDATE agents SET ... WHERE id = ?\<close>.\<close>

definition update_match :: "string \<Rightarrow> (match_row \<Rightarrow> match_row) \<Rightarrow> db \<Rightarrow> db" where
  "update_match i f d = d\<lparr>matches := map (\<lambda>m. if m_id m = i then f m else m) (matches d)\<rparr>"

definition update_agent :: "string \<Rightarrow> (agent_row \<Rightarrow> agent_row) \<Rightarrow> db \<Rightarrow> db" where
  "update_agent i f d = d\<lparr>agents := map (\<lambda>a. if a_id a = i then f a else a) (agents d)\<rparr>"

text \<open>
  \<open>INSERT INTO matches\<close>: the primary key \<open>id\<close> must be new; a violated constraint
  rejects the statement. The columns \<open>challenge_type\<close> and \<open>time_limit\<close> are \<open>NOT NULL\<close>:
  the functions that write them treat a missing value as a violated constraint.
\<close>

definition insert_match :: "match_row \<Rightarrow> db \<Rightarrow> error + db" where
  "insert_match r d =
     (if m_id r \<in> set (map m_id (matches d)) then Inl ConstraintError
      else Inr (d\<lparr>matches := matches d @ [r]\<rparr>))"

text \<open>The column defaults of a new \<open>matches\<close> row.\<close>

definition default_match :: match_row where
  "default_match =
     \<lparr>m_id = [], agent1_id = [], agent2_id = [], challenge_type = [], challenge_data = [],
      status = Waiting, winner_id = None, started_at = None, completed_at = None,
      time_limit = 0, entry_fee_wei = 100000000000000, creator_id = None, opponent_id = None,
      pot_wei = 0, arena_cut_wei = 0, winner_payout_wei = 0, challenge_seed = None,
      is_practice = 0, elo_change_agent1 = 0, elo_change_agent2 = 0\<rparr>"

text \<open>
  \<open>createCustomMatch\<close>: the row is open, has no challenge yet (\<open>'{}'\<close>) and a time limit of
  300; the \<open>difficulty\<close> argument is not stored. A \<open>null\<close> challenge type violates the
  \<open>NOT NULL\<close> constraint of the column.
\<close>

definition createCustomMatch ::
  "db \<Rightarrow> string \<Rightarrow> string \<Rightarrow> string option \<Rightarrow> wei \<Rightarrow> int \<Rightarrow> string \<Rightarrow> error + db" where
  "createCustomMatch d uuid creatorId challengeType entryFeeWei difficulty challengeSeed =
     (case challengeType of
        None \<Rightarrow> Inl ConstraintError
      | Some ty \<Rightarrow>
          insert_match
            (default_match\<lparr>m_id := uuid, agent1_id := creatorId, agent2_id := [],
               challenge_type := ty, challenge_data := [], time_limit := 300,
               entry_fee_wei := entryFeeWei, creator_id := Some creatorId, status := Open,
               challenge_seed := Some challengeSeed\<rparr>) d)"

text \<open>
  \<open>joinCustomMatch\<close>: reads the entry fee of the row (a missing row makes the property
  access throw), computes pot, arena cut and payout with \<open>BigInt\<close> arithmetic and updates
  the row.
\<close>

definition joinCustomMatch ::
  "db \<Rightarrow> string \<Rightarrow> string \<Rightarrow> jobject \<Rightarrow> int option \<Rightarrow> nat \<Rightarrow> error + db" where
  "joinCustomMatch d matchId opponentId challengeData timeLimit now =
     (case getMatch d matchId of
        None \<Rightarrow> Inl TypeError
      | Some row \<Rightarrow>
          (let potWei = entry_fee_wei row * 2;
               arenaCutWei = potWei sdiv 10;
               winnerPayoutWei = potWei - arenaCutWei
           in case timeLimit of
                None \<Rightarrow> Inl ConstraintError
              | Some tlimit \<Rightarrow>
                  Inr (update_match matchId
                    (\<lambda>m. m\<lparr>agent2_id := opponentId, opponent_id := Some opponentId,
                            status := Active, challenge_data := challengeData,
                            time_limit := tlimit, started_at := Some now,
                            pot_wei := potWei, arena_cut_wei := arenaCutWei,
                            winner_payout_wei := winnerPayoutWei\<rparr>) d)))"

text \<open>
  \<open>updateELO\<close>. A missing match returns at once, a practice match returns before any
  agent is read. Otherwise both agents are read (a missing agent makes the property access
  throw), the expected scores come from the rating difference, \<open>Math.round\<close> rounds half
  up, the rating changes are stored on the match and both agents are updated in turn.
  The arithmetic of IEEE doubles is idealised by the reals.
\<close>

definition expectedScore :: "int \<Rightarrow> int \<Rightarrow> real" where
  "expectedScore elo1 elo2 = 1 / (1 + 10 powr ((real_of_int elo2 - real_of_int elo1) / 400))"

definition mathRound :: "real \<Rightarrow> int" where
  "mathRound x = \<lfloor>x + 1 / 2\<rfloor>"

definition updateELO :: "db \<Rightarrow> string \<Rightarrow> string option \<Rightarrow> error + db" where
  "updateELO d matchId winnerId =
     (case getMatch d matchId of
        None \<Rightarrow> Inr d
      | Some m \<Rightarrow>
          if is_practice m \<noteq> 0 then Inr d
          else
            (case (getAgent d (agent1_id m), getAgent d (agent2_id m)) of
               (Some agent1, Some agent2) \<Rightarrow>
                 (let K = 32;
                      expectedScore1 = expectedScore (elo agent1) (elo agent2);
                      expectedScore2 = 1 - expectedScore1;
                      actualScore1 = (if \<not> strTruthy winnerId then 1 / 2
                                      else if winnerId = Some (agent1_id m) then 1 else 0);
                      actualScore2 = (if \<not> strTruthy winnerId then 1 / 2
                                      else if winnerId = Some (agent1_id m) then 0 else 1);
                      newElo1 = mathRound (real_of_int (elo agent1) + K * (actualScore1 - expectedScore1));
                      newElo2 = mathRound (real_of_int (elo agent2) + K * (actualScore2 - expectedScore2));
                      d1 = update_match matchId
                             (\<lambda>r. r\<lparr>elo_change_agent1 := newElo1 - elo agent1,
                                     elo_change_agent2 := newElo2 - elo agent2\<rparr>) d
                  in Inr
                    (if \<not> strTruthy winnerId then
                       update_agent (agent2_id m) (\<lambda>a. a\<lparr>elo := newElo2, draws := draws a + 1\<rparr>)
                         (update_agent (agent1_id m) (\<lambda>a. a\<lparr>elo := newElo1, draws := draws a + 1\<rparr>) d1)
                     else if winnerId = Some (agent1_id m) then
                       update_agent (agent2_id m) (\<lambda>a. a\<lparr>elo := newElo2, losses := losses a + 1\<rparr>)
                         (update_agent (agent1_id m) (\<lambda>a. a\<lparr>elo := newElo1, wins := wins a + 1\<rparr>) d1)
                     else
                       update_agent (agent2_id m) (\<lambda>a. a\<lparr>elo := newElo2, wins := wins a + 1\<rparr>)
                         (update_agent (agent1_id m) (\<lambda>a. a\<lparr>elo := newElo1, losses := losses a + 1\<rparr>) d1)))
             | _ \<Rightarrow> Inl TypeError))"

text \<open>
  \<open>handleMatchPayout\<close> changes no table: it returns early for a missing match, a zero
  payout or a practice match, and otherwise writes the payout and the arena cut to the
  console. The value says which of these happened.
\<close>

datatype payout_note = NoPayoutNeeded | SkippedPractice | LoggedPayout wei "string option" wei

definition handleMatchPayout :: "db \<Rightarrow> string \<Rightarrow> string option \<Rightarrow> payout_note" where
  "handleMatchPayout d matchId winnerId =
     (case getMatch d matchId of
        None \<Rightarrow> NoPayoutNeeded
      | Some m \<Rightarrow>
          if winner_payout_wei m = 0 then NoPayoutNeeded
          else if is_practice m \<noteq> 0 then SkippedPractice
          else LoggedPayout (winner_payout_wei m) winnerId (arena_cut_wei m))"

text \<open>
  \<open>completeMatch\<close>: the row is marked completed first; an exception of \<open>updateELO\<close> leaves
  that update in place and skips the payout step.
\<close>

definition completeMatch ::
  "db \<Rightarrow> string \<Rightarrow> string option \<Rightarrow> nat \<Rightarrow> (error + payout_note) \<times> db" where
  "completeMatch d matchId winnerId now =
     (let d1 = update_match matchId
                 (\<lambda>m. m\<lparr>status := Completed, winner_id := winnerId, completed_at := Some now\<rparr>) d
      in case updateELO d1 matchId winnerId of
           Inl e \<Rightarrow> (Inl e, d1)
         | Inr d2 \<Rightarrow> (Inr (handleMatchPayout d2 matchId winnerId), d2))"


definition getPaymentByTxHash :: "db \<Rightarrow> string \<Rightarrow> payment_row option" where
  "getPaymentByTxHash d h = find (\<lambda>p. tx_hash p = h) (payments d)"

text \<open>
  The balance of an agent, \<open>SELECT COALESCE(SUM(CAST(amount_wei AS INTEGER)), 0)\<close>. SQLite
  casts each amount to a 64-bit integer (a larger number becomes the largest 64-bit
  integer) and adds them up as 64-bit integers; a sum that leaves the 64-bit range makes
  the statement fail with ``integer overflow''. The sum reaches the code as a JavaScript
  number, is printed with \<open>toString()\<close> and read with \<open>BigInt\<close>: up to \<open>2^53\<close> this gives the
  sum itself, beyond that the nearest double as \<open>toString()\<close> prints it, which is the
  parameter \<open>readNumber\<close>.
\<close>

definition int64Max :: int where
  "int64Max = 9223372036854775807"

definition castInteger :: "int \<Rightarrow> int" where
  "castInteger n = max (- int64Max - 1) (min int64Max n)"

fun sumInt64 :: "int \<Rightarrow> int list \<Rightarrow> error + int" where
  "sumInt64 acc [] = Inr acc"
| "sumInt64 acc (x # xs) =
     (if acc + x < - int64Max - 1 \<or> int64Max < acc + x then Inl IntegerOverflow
      else sumInt64 (acc + x) xs)"

definition getAgentPaymentBalance :: "(int \<Rightarrow> int) \<Rightarrow> db \<Rightarrow> string \<Rightarrow> error + wei" where
  "getAgentPaymentBalance readNumber d agentId =
     (case sumInt64 0 (map (\<lambda>p. castInteger (amount_wei p))
                        (filter (\<lambda>p. p_agent_id p = agentId) (payments d))) of
        Inl e \<Rightarrow> Inl e
      | Inr total_paid \<Rightarrow>
          Inr (if \<bar>total_paid\<bar> \<le> 9007199254740992 then total_paid else readNumber total_paid))"

definition canAgentAffordMatch :: "(int \<Rightarrow> int) \<Rightarrow> db \<Rightarrow> string \<Rightarrow> wei \<Rightarrow> error + bool" where
  "canAgentAffordMatch readNumber d agentId entryFeeWei =
     (case getAgentPaymentBalance readNumber d agentId of
        Inl e \<Rightarrow> Inl e
      | Inr balance \<Rightarrow> Inr (balance \<ge> entryFeeWei))"

definition recordPayment ::
  "db \<Rightarrow> string \<Rightarrow> string \<Rightarrow> string \<Rightarrow> wei \<Rightarrow> string \<Rightarrow> string option \<Rightarrow> error + db" where
  "recordPayment d paymentId agentId txHash amountWei fromWallet matchId =
     (if txHash \<in> set (map tx_hash (payments d)) \<or> paymentId \<in> set (map p_id (payments d))
      then Inl ConstraintError
      else Inr (d\<lparr>payments := payments d @
                  [\<lparr>p_id = paymentId, p_agent_id = agentId, tx_hash = txHash,
                    amount_wei = amountWei, from_wallet = fromWallet, p_match_id = matchId\<rparr>]\<rparr>))"


definition submitSolution :: "db \<Rightarrow> string \<Rightarrow> string \<Rightarrow> string \<Rightarrow> string \<Rightarrow> nat \<Rightarrow> db" where
  "submitSolution d uuid matchId agentId sol now =
     d\<lparr>submissions := submissions d @
          [\<lparr>s_id = uuid, match_id = matchId, agent_id = agentId, solution = sol,
            correct = False, sub_score = 0, submitted_at = now\<rparr>]\<rparr>"

definition markSubmissionCorrect :: "db \<Rightarrow> string \<Rightarrow> int \<Rightarrow> db" where
  "markSubmissionCorrect d submissionId sc =
     d\<lparr>submissions := map (\<lambda>s. if s_id s = submissionId then s\<lparr>correct := True, sub_score := sc\<rparr> else s)
                          (submissions d)\<rparr>"

definition getMatchSubmissions :: "db \<Rightarrow> string \<Rightarrow> submission_row list" where
  "getMatchSubmissions d matchId = filter (\<lambda>s. match_id s = matchId) (submissions d)"

text \<open>
  \<open>getAgentMatches\<close> and \<open>getActiveMatches\<close> order the rows by \<open>started_at DESC\<close> (a row that
  has not started comes last) before \<open>LIMIT\<close> and \<open>OFFSET\<close> apply. SQL leaves the order of
  rows with equal keys open; the model keeps them in the order of insertion.
\<close>

definition startedKey :: "match_row \<Rightarrow> int" where
  "startedKey m = (case started_at m of None \<Rightarrow> 0 | Some t \<Rightarrow> - int t - 1)"

definition getAgentMatches :: "db \<Rightarrow> string \<Rightarrow> nat \<Rightarrow> nat \<Rightarrow> match_row list" where
  "getAgentMatches d agentId limit offset =
     take limit (drop offset
       (sort_key startedKey
         (filter (\<lambda>m. agent1_id m = agentId \<or> agent2_id m = agentId \<or>
                       creator_id m = Some agentId \<or> opponent_id m = Some agentId) (matches d))))"

definition getActiveMatches :: "db \<Rightarrow> match_row list" where
  "getActiveMatches d =
     sort_key startedKey (filter (\<lambda>m. status m = Waiting \<or> status m = Active) (matches d))"

section \<open>The server: state, requests and responses\<close>

text \<open>
  The challenge generator and validator (\<open>require('./challenges')\<close>) are used by the
  handlers through \<open>generateChallenge(type, difficulty, seed)\<close>, which returns the challenge
  object or throws. The handlers below take it as the parameter \<open>gen\<close>. They read
  \<open>challenge.type\<close> and \<open>challenge.timeLimit\<close> from its result.
\<close>

type_synonym generator = "string option \<Rightarrow> int \<Rightarrow> string option \<Rightarrow> error + jobject"

definition chType :: "jobject \<Rightarrow> string option" where
  "chType c = (case field ''type'' c of Some (JStr t) \<Rightarrow> Some t | _ \<Rightarrow> None)"

definition chTimeLimit :: "jobject \<Rightarrow> int option" where
  "chTimeLimit c = (case field ''timeLimit'' c of Some (JNum n) \<Rightarrow> Some n | _ \<Rightarrow> None)"

record queue_entry =
  agent :: agent_row
  q_challenge_type :: "string option"
  q_difficulty :: int
  joined_at :: nat

text \<open>
  The state of the server: the database, the in-memory matchmaking queue and the payouts
  handed to \<open>sendPayout\<close> (match, wallet, amount). Broadcast events are not modelled.
\<close>

record server =
  store :: db
  matchQueue :: "queue_entry list"
  payouts :: "(string \<times> string \<times> wei) list"

text \<open>
  A response is a status code with a JSON body, an object or (for the battles of an agent)
  an array; \<open>Unhandled\<close> is an exception that no handler catches.
\<close>

datatype response = Response nat jobject | ResponseArray nat "json list" | Unhandled error

definition errorResponse :: "nat \<Rightarrow> string \<Rightarrow> response" where
  "errorResponse code msg = Response code [(''error'', JStr msg)]"

text \<open>\<open>String.prototype.toLowerCase\<close> on ASCII letters.\<close>

definition lowerChar :: "char \<Rightarrow> char" where
  "lowerChar c = (let n = of_char c :: nat in if 65 \<le> n \<and> n \<le> 90 then char_of (n + 32) else c)"

definition toLowerCase :: "string \<Rightarrow> string" where
  "toLowerCase s = map lowerChar s"

text \<open>
  The chain as the payment checks see it: for a transaction hash, whether the receipt
  reports success, and recipient, sender and value of the transaction. A hash the node
  does not know makes the client throw.
\<close>

record chain_tx =
  receipt_success :: bool
  tx_to :: string
  tx_from :: string
  tx_value :: wei

type_synonym chain = "string \<Rightarrow> chain_tx option"

definition ARENA_WALLET :: string where
  "ARENA_WALLET = ''0x864736f6982Ae6D2e40033d52C0c82c14Da9bc65''"

definition ENTRY_FEE_ETH :: string where
  "ENTRY_FEE_ETH = ''0.0001''"

text \<open>\<open>ENTRY_FEE_WEI = parseEther('0.0001')\<close>, that is \<open>10^14\<close> wei.\<close>

definition ENTRY_FEE_WEI :: wei where
  "ENTRY_FEE_WEI = 100000000000000"

section \<open>Matchmaking queue\<close>

text \<open>
  \<open>tryMatchmaking\<close>: with fewer than two entries nothing happens. Otherwise the first two
  entries are shifted off the queue, the challenge is generated (an exception of the
  generator leaves the function, after the entries are gone), and the active match is
  inserted with the default entry fee; a failing insert is caught and gives \<open>null\<close>.
  The match id handed back is \<open>lastID\<close>, the rowid of the inserted row (kept as a number).
  The seed and the match id are the host's random values, passed in.
\<close>

definition tryMatchmaking ::
  "generator \<Rightarrow> server \<Rightarrow> string \<Rightarrow> string \<Rightarrow> nat
     \<Rightarrow> (error + (nat \<times> jobject) option) \<times> server" where
  "tryMatchmaking gen sv challengeSeed uuid now =
     (case matchQueue sv of
        agent1Entry # agent2Entry # rest \<Rightarrow>
          (let sv1 = sv\<lparr>matchQueue := rest\<rparr>;
               challengeType = strOr (q_challenge_type agent1Entry) (q_challenge_type agent2Entry);
               difficulty = max (q_difficulty agent1Entry) (q_difficulty agent2Entry)
           in case gen challengeType difficulty (Some challengeSeed) of
                Inl e \<Rightarrow> (Inl e, sv1)
              | Inr challenge \<Rightarrow>
                  (let quickMatchFeeWei = ENTRY_FEE_WEI;
                       potWei = quickMatchFeeWei * 2;
                       arenaCutWei = potWei sdiv 10;
                       winnerPayoutWei = potWei - arenaCutWei
                   in case (chType challenge, chTimeLimit challenge) of
                        (Some ty, Some tlimit) \<Rightarrow>
                          (case insert_match
                                  (default_match\<lparr>m_id := uuid,
                                     agent1_id := a_id (agent agent1Entry),
                                     agent2_id := a_id (agent agent2Entry),
                                     challenge_type := ty, challenge_data := challenge,
                                     time_limit := tlimit, entry_fee_wei := quickMatchFeeWei,
                                     creator_id := Some (a_id (agent agent1Entry)),
                                     opponent_id := Some (a_id (agent agent2Entry)),
                                     status := Active, challenge_seed := Some challengeSeed,
                                     pot_wei := potWei, arena_cut_wei := arenaCutWei,
                                     winner_payout_wei := winnerPayoutWei,
                                     started_at := Some now\<rparr>) (store sv1) of
                             Inl e \<Rightarrow> (Inr None, sv1)
                           | Inr d' \<Rightarrow> (Inr (Some (length (matches d'), challenge)), sv1\<lparr>store := d'\<rparr>))
                      | _ \<Rightarrow> (Inr None, sv1)))
      | _ \<Rightarrow> (Inr None, sv))"

text \<open>
  \<open>POST /api/match/queue\<close>. \<open>rnd\<close> is the value of \<open>Math.random()\<close> that chooses the
  difficulty when the request gives none, \<open>readNumber\<close> the reading of a balance beyond
  \<open>2^53\<close>. The handler has no \<open>try\<close>: a failing balance query and an exception of the
  generator both leave it.
\<close>

definition inQueue :: "queue_entry list \<Rightarrow> string \<Rightarrow> bool" where
  "inQueue q agentId = (find (\<lambda>entry. a_id (agent entry) = agentId) q \<noteq> None)"

definition queueHandler ::
  "(int \<Rightarrow> int) \<Rightarrow> generator \<Rightarrow> server \<Rightarrow> agent_row \<Rightarrow> string option \<Rightarrow> int option \<Rightarrow> real
     \<Rightarrow> string \<Rightarrow> string \<Rightarrow> nat \<Rightarrow> response \<times> server" where
  "queueHandler readNumber gen sv reqAgent reqChallengeType difficulty rnd challengeSeed uuid now =
     (case canAgentAffordMatch readNumber (store sv) (a_id reqAgent) ENTRY_FEE_WEI of
        Inl e \<Rightarrow> (Unhandled e, sv)
      | Inr canAfford \<Rightarrow>
      if \<not> canAfford
      then (Response 402 [(''error'', JStr ''Insufficient payment balance'')], sv)
      else if inQueue (matchQueue sv) (a_id reqAgent)
      then (errorResponse 400 ''Already in queue'', sv)
      else
        (let queueEntry = \<lparr>agent = reqAgent,
                            q_challenge_type = strOr reqChallengeType None,
                            q_difficulty = numOr difficulty (\<lfloor>rnd * 3\<rfloor> + 1),
                            joined_at = now\<rparr>;
             sv1 = sv\<lparr>matchQueue := matchQueue sv @ [queueEntry]\<rparr>
         in case tryMatchmaking gen sv1 challengeSeed uuid now of
              (Inl e, sv2) \<Rightarrow> (Unhandled e, sv2)
            | (Inr (Some (lastID, challenge)), sv2) \<Rightarrow>
                (Response 200 [(''success'', JBool True), (''match_id'', JNum (int lastID)),
                               (''message'', JStr ''Match found!'')], sv2)
            | (Inr None, sv2) \<Rightarrow>
                (Response 200 [(''success'', JBool True),
                               (''message'', JStr ''Added to queue, waiting for opponent...''),
                               (''queue_position'', JNum (int (length (matchQueue sv2))))], sv2)))"

section \<open>Creating and joining matches\<close>

text \<open>
  The payment checks shared by the create and join handlers: the transaction hash must be
  new, the receipt must report success, the recipient must be the arena wallet, the value
  must cover the fee and the sender must be the agent's wallet. \<open>Inr (Some msg)\<close> is a
  refusal with status 400, \<open>Inl\<close> an exception (an unknown hash, an agent without a wallet).
\<close>

definition paymentCheck ::
  "chain \<Rightarrow> db \<Rightarrow> string \<Rightarrow> wei \<Rightarrow> string option \<Rightarrow> error + string option" where
  "paymentCheck ch d txHash requiredWei agentWallet =
     (if getPaymentByTxHash d txHash \<noteq> None then Inr (Some ''Transaction already processed'')
      else
        (case ch txHash of
           None \<Rightarrow> Inl PaymentError
         | Some tx \<Rightarrow>
             if \<not> receipt_success tx then Inr (Some ''Transaction not found or failed'')
             else if toLowerCase (tx_to tx) \<noteq> toLowerCase ARENA_WALLET
             then Inr (Some ''Transaction not sent to arena wallet'')
             else if tx_value tx < requiredWei then Inr (Some ''Insufficient payment amount'')
             else
               (case agentWallet of
                  None \<Rightarrow> Inl TypeError
                | Some w \<Rightarrow>
                    if toLowerCase (tx_from tx) \<noteq> toLowerCase w
                    then Inr (Some ''Transaction sender does not match registered wallet'')
                    else Inr None)))"

text \<open>
  \<open>POST /api/match/create\<close>. The request body carries \<open>challengeType\<close>, \<open>entryFee\<close>,
  \<open>difficulty\<close> and \<open>txHash\<close>, each possibly absent. \<open>parseEther\<close> (of the viem library)
  is a parameter: it gives the amount in wei or throws. The handler checks that type and
  fee are present and that the fee reaches the minimum of \<open>10^14\<close> wei
  (\<open>parseEther('0.0001')\<close>); it does not look at the value of the type or of the difficulty.
  The seed, the match id and the payment id are the host's random values.
\<close>

record create_request =
  challengeType :: "string option"
  entryFee :: "string option"
  difficulty :: "int option"
  txHash :: "string option"

definition minFeeWei :: wei where
  "minFeeWei = 100000000000000"

definition createResponse :: "string \<Rightarrow> create_request \<Rightarrow> wei \<Rightarrow> response" where
  "createResponse matchId req entryFeeWei =
     Response 200
       [(''success'', JBool True), (''match_id'', JStr matchId),
        (''entry_fee'', JStr (the (entryFee req) @ '' ETH'')),
        (''entry_fee_wei'', JNum entryFeeWei),
        (''challenge_type'', (case challengeType req of None \<Rightarrow> JNull | Some t \<Rightarrow> JStr t)),
        (''difficulty'', JNum (numOr (difficulty req) 3)),
        (''message'', JStr (if strTruthy (txHash req)
                            then ''Custom match created and payment verified!''
                            else ''Custom match created! Pay entry fee to finalize.''))]"

definition createHandler ::
  "(string \<Rightarrow> wei option) \<Rightarrow> chain \<Rightarrow> server \<Rightarrow> agent_row \<Rightarrow> create_request \<Rightarrow> string \<Rightarrow> string
     \<Rightarrow> string \<Rightarrow> response \<times> server" where
  "createHandler parseEther ch sv reqAgent req challengeSeed uuid paymentId =
     (if \<not> strTruthy (challengeType req) \<or> \<not> strTruthy (entryFee req)
      then (errorResponse 400 ''challengeType and entryFee are required'', sv)
      else
        (case parseEther (the (entryFee req)) of
           None \<Rightarrow> (Unhandled TypeError, sv)
         | Some entryFeeWei \<Rightarrow>
             if entryFeeWei < minFeeWei then (errorResponse 400 ''Entry fee too low'', sv)
             else
               (case (if strTruthy (txHash req)
                      then paymentCheck ch (store sv) (the (txHash req)) entryFeeWei (wallet reqAgent)
                      else Inr None) of
                  Inl e \<Rightarrow> (errorResponse 400 ''Payment verification failed'', sv)
                | Inr (Some msg) \<Rightarrow> (errorResponse 400 msg, sv)
                | Inr None \<Rightarrow>
                    (case createCustomMatch (store sv) uuid (a_id reqAgent)
                            (if challengeType req = Some ''random'' then None else challengeType req)
                            entryFeeWei (numOr (difficulty req) 3) challengeSeed of
                       Inl e \<Rightarrow> (errorResponse 500 ''Failed to create match'', sv)
                     | Inr d1 \<Rightarrow>
                         if strTruthy (txHash req) then
                           (case ch (the (txHash req)) of
                              None \<Rightarrow> (errorResponse 500 ''Failed to create match'', sv\<lparr>store := d1\<rparr>)
                            | Some tx \<Rightarrow>
                                (case recordPayment d1 paymentId (a_id reqAgent) (the (txHash req))
                                        (tx_value tx) (tx_from tx) (Some uuid) of
                                   Inl e \<Rightarrow> (errorResponse 500 ''Failed to create match'', sv\<lparr>store := d1\<rparr>)
                                 | Inr d2 \<Rightarrow> (createResponse uuid req entryFeeWei, sv\<lparr>store := d2\<rparr>)))
                         else (createResponse uuid req entryFeeWei, sv\<lparr>store := d1\<rparr>)))))"

text \<open>
  \<open>POST /api/match/:id/join\<close>. After the checks of the match and of the payment the
  challenge is generated from the type and the seed stored on the match, at the fixed
  difficulty 3, and the match is joined. Exceptions give status 500; what was written
  before them stays.
\<close>

definition joinResponse :: "string \<Rightarrow> jobject \<Rightarrow> response" where
  "joinResponse matchId challenge =
     Response 200
       [(''success'', JBool True), (''match_id'', JStr matchId),
        (''message'', JStr ''Successfully joined match!''),
        (''challenge'', JObj
           (map (\<lambda>(k, src). (k, (case field src challenge of None \<Rightarrow> JNull | Some v \<Rightarrow> v)))
              [(''type'', ''type''), (''title'', ''title''), (''description'', ''description''),
               (''time_limit'', ''timeLimit'')]))]"

definition joinHandler ::
  "generator \<Rightarrow> chain \<Rightarrow> server \<Rightarrow> agent_row \<Rightarrow> string \<Rightarrow> string option \<Rightarrow> string \<Rightarrow> nat
     \<Rightarrow> response \<times> server" where
  "joinHandler gen ch sv reqAgent matchId reqTxHash paymentId now =
     (if \<not> strTruthy reqTxHash
      then (errorResponse 400 ''txHash is required for payment verification'', sv)
      else
        (case getMatch (store sv) matchId of
           None \<Rightarrow> (errorResponse 404 ''Match not found'', sv)
         | Some m \<Rightarrow>
             if status m \<noteq> Open then (errorResponse 400 ''Match is not open for joining'', sv)
             else if creator_id m = Some (a_id reqAgent)
             then (errorResponse 400 ''Cannot join your own match'', sv)
             else
               (case paymentCheck ch (store sv) (the reqTxHash) (entry_fee_wei m) (wallet reqAgent) of
                  Inl e \<Rightarrow> (errorResponse 500 ''Failed to join match'', sv)
                | Inr (Some msg) \<Rightarrow> (errorResponse 400 msg, sv)
                | Inr None \<Rightarrow>
                    (case gen (Some (challenge_type m)) 3 (challenge_seed m) of
                       Inl e \<Rightarrow> (errorResponse 500 ''Failed to join match'', sv)
                     | Inr challenge \<Rightarrow>
                         (case joinCustomMatch (store sv) matchId (a_id reqAgent) challenge
                                 (chTimeLimit challenge) now of
                            Inl e \<Rightarrow> (errorResponse 500 ''Failed to join match'', sv)
                          | Inr d1 \<Rightarrow>
                              (case ch (the reqTxHash) of
                                 None \<Rightarrow> (errorResponse 500 ''Failed to join match'', sv\<lparr>store := d1\<rparr>)
                               | Some tx \<Rightarrow>
                                   (case recordPayment d1 paymentId (a_id reqAgent) (the reqTxHash)
                                           (tx_value tx) (tx_from tx) (Some matchId) of
                                      Inl e \<Rightarrow> (errorResponse 500 ''Failed to join match'', sv\<lparr>store := d1\<rparr>)
                                    | Inr d2 \<Rightarrow>
                                        (case (case creator_id m of None \<Rightarrow> None
                                               | Some c \<Rightarrow> getAgent d2 c) of
                                           None \<Rightarrow> (errorResponse 500 ''Failed to join match'', sv\<lparr>store := d2\<rparr>)
                                         | Some creator \<Rightarrow>
                                             (joinResponse matchId challenge, sv\<lparr>store := d2\<rparr>)))))))))"

text \<open>
  Modelled from the spec: the catalogue of challenge types, \<open>challengeGen.challengeTypes\<close>
  in the code (challenges.js is not among the sources). The spec names the three types of
  a challenge request: \<open>cipher_break\<close>, \<open>code_golf\<close> and \<open>hash_hunt\<close>.
\<close>

definition challengeTypes :: "string list" where
  "challengeTypes = [''cipher_break'', ''code_golf'', ''hash_hunt'']"



section \<open>Submitting a solution\<close>

text \<open>
  \<open>POST /api/match/:id/submit\<close>. The validator (\<open>challengeGen.validateSolution\<close>) is a
  parameter and returns the verdict and the score, or throws. A correct solution of a
  practice match completes the match for the agent at once; in a regular match the first
  correct solution completes it and the payout recorded on the match is handed to
  \<open>sendPayout\<close> when the agent has a wallet. The text \<open>'0'\<close> of a payout column is a
  non-empty string and so is truthy. An exception inside the handler gives status 500;
  the database keeps what was written before it.
\<close>

type_synonym validator = "jobject \<Rightarrow> string \<Rightarrow> error + (bool \<times> int)"

definition submitHandler ::
  "validator \<Rightarrow> server \<Rightarrow> agent_row \<Rightarrow> string \<Rightarrow> string option \<Rightarrow> string \<Rightarrow> nat
     \<Rightarrow> response \<times> server" where
  "submitHandler validateSolution sv reqAgent matchId reqSolution uuid now =
     (case (if strTruthy reqSolution then reqSolution else None) of
        None \<Rightarrow> (errorResponse 400 ''Solution is required'', sv)
      | Some sol \<Rightarrow>
         (case getMatch (store sv) matchId of
            None \<Rightarrow> (errorResponse 404 ''Match not found'', sv)
          | Some m \<Rightarrow>
              if status m \<noteq> Active then (errorResponse 400 ''Match is not active'', sv)
              else if agent1_id m \<noteq> a_id reqAgent \<and> agent2_id m \<noteq> a_id reqAgent
              then (errorResponse 403 ''Not authorized for this match'', sv)
              else if list_ex (\<lambda>sub. agent_id sub = a_id reqAgent) (getMatchSubmissions (store sv) matchId)
              then (errorResponse 400 ''Already submitted solution'', sv)
              else
                (case validateSolution (challenge_data m) sol of
                   Inl e \<Rightarrow> (errorResponse 500 ''Failed to submit solution'', sv)
                 | Inr (isValid, sc) \<Rightarrow>
                     (let d1 = submitSolution (store sv) uuid matchId (a_id reqAgent) sol now;
                          ok = Response 200 [(''success'', JBool True),
                                 (''validation'', JObj [(''valid'', JBool isValid), (''score'', JNum sc)]),
                                 (''submission_id'', JStr uuid)];
                          failed = errorResponse 500 ''Failed to submit solution''
                      in if isValid then
                           (let d2 = markSubmissionCorrect d1 uuid sc
                            in if is_practice m \<noteq> 0 then
                                 (case completeMatch d2 matchId (Some (a_id reqAgent)) now of
                                    (Inl e, d3) \<Rightarrow> (failed, sv\<lparr>store := d3\<rparr>)
                                  | (Inr pnote, d3) \<Rightarrow> (ok, sv\<lparr>store := d3\<rparr>))
                               else if length (filter correct (getMatchSubmissions d2 matchId)) = 1 then
                                 (case completeMatch d2 matchId (Some (a_id reqAgent)) now of
                                    (Inl e, d3) \<Rightarrow> (failed, sv\<lparr>store := d3\<rparr>)
                                  | (Inr pnote, d3) \<Rightarrow>
                                      (case (getMatch d3 matchId, wallet reqAgent) of
                                         (Some completedMatch, Some w) \<Rightarrow>
                                           if w \<noteq> [] then
                                             (ok, sv\<lparr>store := d3,
                                                    payouts := payouts sv @
                                                      [(matchId, w, winner_payout_wei completedMatch)]\<rparr>)
                                           else (ok, sv\<lparr>store := d3\<rparr>)
                                       | _ \<Rightarrow> (ok, sv\<lparr>store := d3\<rparr>)))
                               else (ok, sv\<lparr>store := d2\<rparr>))
                         else (ok, sv\<lparr>store := d1\<rparr>)))))"

text \<open>
  The two deferred completions of a practice match, five seconds after a wrong solution
  and on timeout: PracticeBot wins; a missing PracticeBot row makes the property access
  throw, which is caught and logged.
\<close>

definition practiceBotWins :: "server \<Rightarrow> string \<Rightarrow> nat \<Rightarrow> server" where
  "practiceBotWins sv matchId now =
     (case getPracticeBot (store sv) of
        None \<Rightarrow> sv
      | Some pbot \<Rightarrow> sv\<lparr>store := snd (completeMatch (store sv) matchId (Some (a_id pbot)) now)\<rparr>)"

section \<open>Serving matches: the public projection of a challenge\<close>

text \<open>
  A test case keeps its \<open>input\<close> (the match detail handler also keeps a truthy
  \<open>description\<close>); a key whose value is \<open>undefined\<close> is left out by \<open>JSON.stringify\<close>.
  Reading a property of \<open>null\<close> throws, reading one of another non-object gives \<open>undefined\<close>.
\<close>

fun stripTestCase :: "bool \<Rightarrow> json \<Rightarrow> error + json" where
  "stripTestCase withDescription (JObj tc) =
     Inr (JObj ((case field ''input'' tc of None \<Rightarrow> [] | Some v \<Rightarrow> [(''input'', v)]) @
                (if withDescription \<and> truthy (field ''description'' tc)
                 then [(''description'', the (field ''description'' tc))] else [])))"
| "stripTestCase withDescription JNull = Inl TypeError"
| "stripTestCase withDescription tc = Inr (JObj [])"

fun mapResult :: "('a \<Rightarrow> error + 'b) \<Rightarrow> 'a list \<Rightarrow> error + 'b list" where
  "mapResult f [] = Inr []"
| "mapResult f (x # xs) =
     (case f x of
        Inl e \<Rightarrow> Inl e
      | Inr y \<Rightarrow> (case mapResult f xs of Inl e \<Rightarrow> Inl e | Inr ys \<Rightarrow> Inr (y # ys)))"

definition set_key :: "string \<Rightarrow> json \<Rightarrow> jobject \<Rightarrow> jobject" where
  "set_key k v obj = (if k \<in> fst ` set obj then map (\<lambda>kv. if fst kv = k then (k, v) else kv) obj
                      else obj @ [(k, v)])"

text \<open>
  The projection all four serving handlers apply to \<open>challenge_data\<close>: a copy without
  \<open>answer\<close>, \<open>solution\<close>, \<open>plaintext\<close> and \<open>key\<close>, whose \<open>testCases\<close>, when truthy, are
  mapped to their stripped form (\<open>map\<close> exists on arrays only).
\<close>

definition safeChallenge :: "bool \<Rightarrow> jobject \<Rightarrow> error + jobject" where
  "safeChallenge withDescription cd =
     (let c = delete_key ''key'' (delete_key ''plaintext'' (delete_key ''solution''
                (delete_key ''answer'' cd)))
      in if truthy (field ''testCases'' c) then
           (case field ''testCases'' c of
              Some (JArr tcs) \<Rightarrow>
                (case mapResult (stripTestCase withDescription) tcs of
                   Inl e \<Rightarrow> Inl e
                 | Inr tcs' \<Rightarrow> Inr (set_key ''testCases'' (JArr tcs') c))
            | _ \<Rightarrow> Inl TypeError)
         else Inr c)"

text \<open>The columns of a match row as the JSON object \<open>SELECT *\<close> yields, with a given value for \<open>challenge_data\<close>.\<close>

definition optStr :: "string option \<Rightarrow> json" where
  "optStr x = (case x of None \<Rightarrow> JNull | Some s \<Rightarrow> JStr s)"

definition optNum :: "nat option \<Rightarrow> json" where
  "optNum x = (case x of None \<Rightarrow> JNull | Some n \<Rightarrow> JNum (int n))"

fun statusText :: "match_status \<Rightarrow> string" where
  "statusText Waiting = ''waiting''"
| "statusText Open = ''open''"
| "statusText Active = ''active''"
| "statusText Completed = ''completed''"

definition matchColumns :: "match_row \<Rightarrow> json \<Rightarrow> jobject" where
  "matchColumns m cd =
     [(''id'', JStr (m_id m)), (''agent1_id'', JStr (agent1_id m)), (''agent2_id'', JStr (agent2_id m)),
      (''challenge_type'', JStr (challenge_type m)), (''challenge_data'', cd),
      (''status'', JStr (statusText (status m))), (''winner_id'', optStr (winner_id m)),
      (''started_at'', optNum (started_at m)), (''completed_at'', optNum (completed_at m)),
      (''time_limit'', JNum (time_limit m)), (''entry_fee_wei'', JNum (entry_fee_wei m)),
      (''creator_id'', optStr (creator_id m)), (''opponent_id'', optStr (opponent_id m)),
      (''pot_wei'', JNum (pot_wei m)), (''arena_cut_wei'', JNum (arena_cut_wei m)),
      (''winner_payout_wei'', JNum (winner_payout_wei m)),
      (''challenge_seed'', optStr (challenge_seed m)), (''is_practice'', JNum (is_practice m)),
      (''elo_change_agent1'', JNum (elo_change_agent1 m)),
      (''elo_change_agent2'', JNum (elo_change_agent2 m))]"

definition agentName :: "db \<Rightarrow> string \<Rightarrow> json" where
  "agentName d i = (case getAgent d i of None \<Rightarrow> JNull | Some a \<Rightarrow> JStr (name a))"

definition agentElo :: "db \<Rightarrow> string \<Rightarrow> json" where
  "agentElo d i = (case getAgent d i of None \<Rightarrow> JNull
                   | Some a \<Rightarrow> if elo a = 0 then JNull else JNum (elo a))"

definition submissionJSON :: "db \<Rightarrow> bool \<Rightarrow> submission_row \<Rightarrow> json" where
  "submissionJSON d showSolution sub =
     JObj ([(''agent_id'', JStr (agent_id sub)), (''agent_name'', agentName d (agent_id sub)),
            (''correct'', JBool (correct sub)), (''score'', JNum (sub_score sub)),
            (''submitted_at'', JNum (int (submitted_at sub)))] @
           (if showSolution then [(''solution'', JStr (solution sub))] else []))"

text \<open>
  \<open>GET /api/match/:id\<close>: the whole match row is spread into the answer, with
  \<open>challenge_data\<close> replaced by its projection, the agents' names and ratings and the
  submissions added. A solution is shown once the match is completed, before that only to
  the agent who sent it.
\<close>

definition getMatchDetail :: "server \<Rightarrow> string \<Rightarrow> string option \<Rightarrow> response" where
  "getMatchDetail sv matchId apiKey =
     (case getMatch (store sv) matchId of
        None \<Rightarrow> errorResponse 404 ''Match not found''
      | Some m \<Rightarrow>
          (case safeChallenge True (challenge_data m) of
             Inl e \<Rightarrow> errorResponse 500 ''Failed to get match''
           | Inr safe \<Rightarrow>
               (let requestingAgent =
                      (if strTruthy apiKey then getAgentByApiKey (store sv) (the apiKey) else None);
                    isCompleted = (status m = Completed)
                in Response 200
                     (matchColumns m (JObj safe) @
                      [(''agent1_name'', agentName (store sv) (agent1_id m)),
                       (''agent1_elo'', agentElo (store sv) (agent1_id m)),
                       (''agent2_name'', agentName (store sv) (agent2_id m)),
                       (''agent2_elo'', agentElo (store sv) (agent2_id m)),
                       (''submissions'', JArr
                          (map (\<lambda>sub. submissionJSON (store sv)
                                  (isCompleted \<or>
                                   (case requestingAgent of None \<Rightarrow> False
                                    | Some a \<Rightarrow> agent_id sub = a_id a)) sub)
                             (getMatchSubmissions (store sv) matchId)))]))))"

text \<open>
  The list of an agent's matches, as \<open>GET /api/agent/:id\<close> (\<open>recent_matches\<close>) and
  \<open>GET /api/agent/:id/battles\<close> serve it, and the active matches of
  \<open>GET /api/matches/active\<close>: every row is spread with \<open>challenge_data\<close> replaced by its
  projection.
\<close>

definition safeMatch :: "db \<Rightarrow> match_row \<Rightarrow> error + json" where
  "safeMatch d m =
     (case safeChallenge False (challenge_data m) of
        Inl e \<Rightarrow> Inl e
      | Inr cd \<Rightarrow> Inr (JObj (matchColumns m (JObj cd) @
                             [(''agent1_name'', agentName d (agent1_id m)),
                              (''agent2_name'', agentName d (agent2_id m))])))"

definition publicAgent :: "agent_row \<Rightarrow> jobject" where
  "publicAgent a =
     [(''id'', JStr (a_id a)), (''name'', JStr (name a)), (''endpoint'', JStr (endpoint a)),
      (''description'', optStr (description a)), (''elo'', JNum (elo a)), (''wins'', JNum (wins a)),
      (''losses'', JNum (losses a)), (''draws'', JNum (draws a)), (''wallet'', optStr (wallet a))]"

definition getAgentProfile :: "server \<Rightarrow> string \<Rightarrow> response" where
  "getAgentProfile sv agentId =
     (case getAgent (store sv) agentId of
        None \<Rightarrow> errorResponse 404 ''Agent not found''
      | Some a \<Rightarrow>
          (case mapResult (safeMatch (store sv)) (getAgentMatches (store sv) (a_id a) 20 0) of
             Inl e \<Rightarrow> errorResponse 500 ''Failed to get agent''
           | Inr safeMatches \<Rightarrow>
               Response 200
                 (publicAgent a @
                  [(''erc8004_identity'', optStr (erc8004_identity a)),
                   (''erc8004_token_id'', (if strTruthy (erc8004_identity a)
                                           then optStr (erc8004_identity a) else JNull)),
                   (''recent_matches'', JArr safeMatches)])))"

definition getAgentBattles :: "server \<Rightarrow> string \<Rightarrow> nat \<Rightarrow> nat \<Rightarrow> response" where
  "getAgentBattles sv agentId limit offset =
     (case getAgent (store sv) agentId of
        None \<Rightarrow> errorResponse 404 ''Agent not found''
      | Some a \<Rightarrow>
          (case mapResult (safeMatch (store sv)) (getAgentMatches (store sv) (a_id a) limit offset) of
             Inl e \<Rightarrow> errorResponse 500 ''Failed to get battles''
           | Inr safeMatches \<Rightarrow> ResponseArray 200 safeMatches))"

definition activeMatch :: "db \<Rightarrow> match_row \<Rightarrow> error + json" where
  "activeMatch d m =
     (case safeMatch d m of
        Inl e \<Rightarrow> Inl e
      | Inr (JObj row) \<Rightarrow>
          Inr (JObj (row @ [(''submissions'', JArr (map (submissionJSON d False)
                                                     (getMatchSubmissions d (m_id m))))]))
      | Inr other \<Rightarrow> Inr other)"

definition getActive :: "server \<Rightarrow> response" where
  "getActive sv =
     (case mapResult (activeMatch (store sv)) (getActiveMatches (store sv)) of
        Inl e \<Rightarrow> Response 200 [(''matches'', JArr [])]
      | Inr rows \<Rightarrow> Response 200 [(''matches'', JArr rows)])"

section \<open>The challenge engine\<close>

text \<open>
  Modelled from the spec: the seeded generator of challenges.js, which is not among the
  sources. The spec gives it the contract \<open>next(seedState) \<rightarrow> (value, seedState')\<close>, a fixed
  algorithm whose whole state is the seed and a position counter. The algorithm itself is
  left open by the spec and is the parameter \<open>alg\<close>: the value of the stream keyed by a
  seed at a position.
\<close>

record seedState =
  seedOf :: string
  position :: nat

type_synonym stream_alg = "string \<Rightarrow> nat \<Rightarrow> nat"

definition initialState :: "string \<Rightarrow> seedState" where
  "initialState s = \<lparr>seedOf = s, position = 0\<rparr>"

definition nextDraw :: "stream_alg \<Rightarrow> seedState \<Rightarrow> nat \<times> seedState" where
  "nextDraw alg st = (alg (seedOf st) (position st), st\<lparr>position := Suc (position st)\<rparr>)"

definition drawBelow :: "stream_alg \<Rightarrow> nat \<Rightarrow> seedState \<Rightarrow> nat \<times> seedState" where
  "drawBelow alg n st = (case nextDraw alg st of (v, st') \<Rightarrow> (v mod n, st'))"

text \<open>
  Modelled from the spec: a challenge is a tagged union over the three families; it always
  carries type, difficulty and time limit, its public fields, and the private answer key.
  The answer key of a cipher is the plaintext, of a code puzzle the hidden test cases
  (input and expected output), of a hash pattern the pattern itself.
\<close>

datatype family = Cipher | CodePuzzle | HashPattern

datatype answer_key =
    CipherAnswer string
  | CodeAnswer "(json \<times> json) list"
  | HashAnswer jobject

record Challenge =
  c_family :: family
  c_difficulty :: int
  timeLimitSeconds :: int
  publicFields :: jobject
  answerKey :: answer_key

fun familyName :: "family \<Rightarrow> string" where
  "familyName Cipher = ''cipher_break''"
| "familyName CodePuzzle = ''code_golf''"
| "familyName HashPattern = ''hash_hunt''"

definition catalogue :: "family list" where
  "catalogue = [Cipher, CodePuzzle, HashPattern]"

definition familyOf :: "string \<Rightarrow> family option" where
  "familyOf t = find (\<lambda>f. familyName f = t) catalogue"

text \<open>
  Modelled from the spec: a puzzle family module turns generator output and a difficulty
  into time limit, public fields and answer key. The message pool, the problem catalogue
  and the pattern parameters are not in the sources, so the three modules are parameters
  of the engine, next to the stream algorithm.
\<close>

record module_out =
  m_timeLimit :: int
  m_public :: jobject
  m_key :: answer_key

record engine =
  stream :: stream_alg
  cipherModule :: "int \<Rightarrow> seedState \<Rightarrow> module_out"
  codeModule :: "int \<Rightarrow> seedState \<Rightarrow> module_out"
  hashModule :: "int \<Rightarrow> seedState \<Rightarrow> module_out"

fun familyModule :: "engine \<Rightarrow> family \<Rightarrow> int \<Rightarrow> seedState \<Rightarrow> module_out" where
  "familyModule e Cipher = cipherModule e"
| "familyModule e CodePuzzle = codeModule e"
| "familyModule e HashPattern = hashModule e"

text \<open>
  Modelled from the spec: a malformed request (unknown type, difficulty outside 1 to 5,
  missing seed) is rejected before any generation work; the type may be null, meaning any,
  and an omitted difficulty is 3.
\<close>

datatype gen_error = UnknownType string | DifficultyOutOfRange int | MissingSeed

definition requestDifficulty :: "int option \<Rightarrow> int" where
  "requestDifficulty d = (case d of None \<Rightarrow> 3 | Some n \<Rightarrow> n)"

definition unknownType :: "string option \<Rightarrow> bool" where
  "unknownType ty = (case ty of None \<Rightarrow> False | Some t \<Rightarrow> familyOf t = None)"

definition validateRequest :: "string option \<Rightarrow> int option \<Rightarrow> string option \<Rightarrow> gen_error option" where
  "validateRequest ty d sd =
     (if unknownType ty then Some (UnknownType (the ty))
      else if requestDifficulty d < 1 \<or> 5 < requestDifficulty d
      then Some (DifficultyOutOfRange (requestDifficulty d))
      else if sd = None then Some MissingSeed
      else None)"


definition buildChallenge :: "engine \<Rightarrow> family \<Rightarrow> int \<Rightarrow> seedState \<Rightarrow> Challenge" where
  "buildChallenge e f d st =
     (let out = familyModule e f d st
      in \<lparr>c_family = f, c_difficulty = d, timeLimitSeconds = m_timeLimit out,
          publicFields = m_public out, answerKey = m_key out\<rparr>)"

definition generate :: "engine \<Rightarrow> string option \<Rightarrow> int option \<Rightarrow> string option \<Rightarrow> gen_error + Challenge" where
  "generate e ty d sd =
     (case validateRequest ty d sd of
        Some err \<Rightarrow> Inl err
      | None \<Rightarrow>
          (case (ty, sd) of
             (Some t, Some s) \<Rightarrow>
               (case familyOf t of
                  Some f \<Rightarrow> Inr (buildChallenge e f (requestDifficulty d) (initialState s))
                | None \<Rightarrow> Inl (UnknownType t))
           | (None, Some s) \<Rightarrow>
               (case drawBelow (stream e) (length catalogue) (initialState s) of
                  (i, st) \<Rightarrow> Inr (buildChallenge e (catalogue ! i) (requestDifficulty d) st))
           | (_, None) \<Rightarrow> Inl MissingSeed))"

text \<open>
  Modelled from the spec: the public projection of a challenge (for a code puzzle the test
  cases with their inputs only), and the object the server stores, which carries the
  private fields next to the public ones under the keys the serving handlers delete or
  strip (\<open>plaintext\<close>, the expected value of a test case).
\<close>

definition headerFields :: "Challenge \<Rightarrow> jobject" where
  "headerFields c =
     [(''type'', JStr (familyName (c_family c))), (''difficulty'', JNum (c_difficulty c)),
      (''timeLimit'', JNum (timeLimitSeconds c))]"

fun publicKeyFields :: "answer_key \<Rightarrow> jobject" where
  "publicKeyFields (CipherAnswer p) = []"
| "publicKeyFields (CodeAnswer tcs) = [(''testCases'', JArr (map (\<lambda>tc. JObj [(''input'', fst tc)]) tcs))]"
| "publicKeyFields (HashAnswer pat) = pat"

fun privateKeyFields :: "answer_key \<Rightarrow> jobject" where
  "privateKeyFields (CipherAnswer p) = [(''plaintext'', JStr p)]"
| "privateKeyFields (CodeAnswer tcs) =
     [(''testCases'', JArr (map (\<lambda>tc. JObj [(''input'', fst tc), (''expected'', snd tc)]) tcs))]"
| "privateKeyFields (HashAnswer pat) = pat"

definition publicChallenge :: "Challenge \<Rightarrow> jobject" where
  "publicChallenge c = headerFields c @ publicFields c @ publicKeyFields (answerKey c)"

definition challengeObject :: "Challenge \<Rightarrow> jobject" where
  "challengeObject c = headerFields c @ publicFields c @ privateKeyFields (answerKey c)"

text \<open>
  Modelled from the spec: the engine as the handlers call \<open>generateChallenge\<close>, with the
  stored object as the result and a rejected request as an exception.
\<close>

definition engineGen :: "engine \<Rightarrow> generator" where
  "engineGen e ty d sd =
     (case generate e ty (Some d) sd of
        Inl err \<Rightarrow> Inl GenerationError
      | Inr c \<Rightarrow> Inr (challengeObject c))"

section \<open>Validation of solutions\<close>

text \<open>
  Modelled from the spec: the result of a validation, a verdict, a score and, for code
  puzzles that were run, the pass flag of every test case. \<open>validateSolution\<close> is in
  challenges.js, which is not among the sources.
\<close>

record ValidationResult =
  valid :: bool
  score :: int
  perCaseDetail :: "bool list option"

text \<open>
  Modelled from the spec: the static filter of the code-puzzle family. A submission that
  contains a token of the fixed denylist is rejected without execution. The tokens are the
  blocked keywords SKILL.md lists; they cover module loading (\<open>require\<close>, \<open>import\<close>),
  process and host access (\<open>process\<close>, \<open>child_process\<close>, \<open>XMLHttpRequest\<close>, \<open>WebSocket\<close>),
  reflective proxying (\<open>Proxy\<close>, \<open>Reflect\<close>, \<open>__proto__\<close>) and dynamic global access
  (\<open>eval\<close>, \<open>globalThis\<close>).
\<close>

definition denylist :: "string list" where
  "denylist = [''require'', ''import'', ''process'', ''eval'', ''__proto__'', ''Proxy'', ''Reflect'',
               ''globalThis'', ''child_process'', ''XMLHttpRequest'', ''WebSocket'']"

fun containsToken :: "string \<Rightarrow> string \<Rightarrow> bool" where
  "containsToken tok [] = (tok = [])"
| "containsToken tok (c # cs) = (take (length tok) (c # cs) = tok \<or> containsToken tok cs)"

definition denylisted :: "string \<Rightarrow> bool" where
  "denylisted submission = list_ex (\<lambda>tok. containsToken tok submission) denylist"

text \<open>
  Modelled from the spec: the sandboxed execution judge. The sandbox itself (parsing the
  accepted submission shapes, running the candidate on one input under the time and memory
  ceilings) is the parameter \<open>sandbox\<close>: it gives the returned value, or nothing when the
  candidate throws, runs out of time or memory, or produces no value. The judge runs the
  submission once per hidden test case, in order, and a case passes when the returned
  value equals the expected one. The trace lists what was executed: the code and the input.
  All test cases are run; a failing case does not stop the run.
\<close>

type_synonym sandbox = "string \<Rightarrow> json \<Rightarrow> json option"

definition casePasses :: "sandbox \<Rightarrow> string \<Rightarrow> json \<times> json \<Rightarrow> bool" where
  "casePasses sb submission tc = (sb submission (fst tc) = Some (snd tc))"

definition judge :: "sandbox \<Rightarrow> string \<Rightarrow> (json \<times> json) list \<Rightarrow> bool list \<times> (string \<times> json) list" where
  "judge sb submission testCases =
     (map (casePasses sb submission) testCases, map (\<lambda>tc. (submission, fst tc)) testCases)"

text \<open>
  Modelled from the spec: the score is the base 100 plus the length bonus
  \<open>max(10, 200 - characterCount(submission))\<close> when every test case passes; with any
  failing case the score is 0 and the verdict is invalid.
\<close>

definition lengthBonus :: "string \<Rightarrow> int" where
  "lengthBonus submission = max 10 (200 - int (length submission))"

definition validateCode ::
  "sandbox \<Rightarrow> (json \<times> json) list \<Rightarrow> string \<Rightarrow> ValidationResult \<times> (string \<times> json) list" where
  "validateCode sb testCases submission =
     (if denylisted submission
      then (\<lparr>valid = False, score = 0, perCaseDetail = None\<rparr>, [])
      else
        (case judge sb submission testCases of
           (flags, trace) \<Rightarrow>
             if list_all (\<lambda>b. b) flags
             then (\<lparr>valid = True, score = 100 + lengthBonus submission, perCaseDetail = Some flags\<rparr>, trace)
             else (\<lparr>valid = False, score = 0, perCaseDetail = Some flags\<rparr>, trace)))"

text \<open>
  Modelled from the spec: \<open>validate(answerKey, submission)\<close> is a closed match on the
  family of the answer key. The comparison of a cipher submission with the stored plaintext
  is the parameter \<open>cipherCheck\<close>: the spec describes it once as a trim-and-uppercase
  match and once as an exact match that lower-case and padded variants fail, and the
  sources do not decide between the two. The digest check of the hash-pattern family (a
  cryptographic digest compared with the pattern) is the parameter \<open>hashCheck\<close>. Neither
  runs code, and both give the full score or none.
\<close>

definition validate ::
  "sandbox \<Rightarrow> (string \<Rightarrow> string \<Rightarrow> bool) \<Rightarrow> (jobject \<Rightarrow> string \<Rightarrow> bool) \<Rightarrow> answer_key \<Rightarrow> string
     \<Rightarrow> ValidationResult \<times> (string \<times> json) list" where
  "validate sb cipherCheck hashCheck key submission =
     (case key of
        CipherAnswer plaintext \<Rightarrow>
          (let ok = cipherCheck plaintext submission
           in (\<lparr>valid = ok, score = (if ok then 100 else 0), perCaseDetail = None\<rparr>, []))
      | CodeAnswer testCases \<Rightarrow> validateCode sb testCases submission
      | HashAnswer pat \<Rightarrow>
          (let ok = hashCheck pat submission
           in (\<lparr>valid = ok, score = (if ok then 100 else 0), perCaseDetail = None\<rparr>, [])))"

section \<open>Example data\<close>

text \<open>Two registered agents, an open custom match and a generator with a fixed answer, used to run the model.\<close>

definition agentA :: agent_row where
  "agentA = \<lparr>a_id = ''agent-a'', name = ''Alpha'', endpoint = ''https://a.example'',
              description = None, api_key = ''dk_a'', elo = 1000, wins = 0, losses = 0, draws = 0,
              erc8004_identity = Some ''17'', wallet = Some ''0xAA''\<rparr>"

definition agentB :: agent_row where
  "agentB = \<lparr>a_id = ''agent-b'', name = ''Beta'', endpoint = ''https://b.example'',
              description = None, api_key = ''dk_b'', elo = 1010, wins = 0, losses = 0, draws = 0,
              erc8004_identity = Some ''18'', wallet = Some ''0xBB''\<rparr>"

definition practiceBot :: agent_row where
  "practiceBot = \<lparr>a_id = ''practice-bot-001'', name = ''PracticeBot'',
              endpoint = ''internal://practice-bot'',
              description = Some ''Built-in practice opponent for testing challenges'',
              api_key = ''practice_bot_internal_key'', elo = 1000, wins = 0, losses = 0, draws = 0,
              erc8004_identity = None,
              wallet = Some ''0x0000000000000000000000000000000000000000''\<rparr>"

definition openMatch :: match_row where
  "openMatch = default_match\<lparr>m_id := ''m-1'', agent1_id := ''agent-a'', agent2_id := [],
                 challenge_type := ''cipher_break'', challenge_data := [], time_limit := 300,
                 entry_fee_wei := 100000000000005, creator_id := Some ''agent-a'', status := Open,
                 challenge_seed := Some ''00ff10''\<rparr>"

definition payA :: payment_row where
  "payA = \<lparr>p_id = ''p-1'', p_agent_id = ''agent-a'', tx_hash = ''0x01'',
            amount_wei = 100000000000000, from_wallet = ''0xAA'', p_match_id = None\<rparr>"

definition payB :: payment_row where
  "payB = \<lparr>p_id = ''p-2'', p_agent_id = ''agent-b'', tx_hash = ''0x02'',
            amount_wei = 100000000000000, from_wallet = ''0xBB'', p_match_id = None\<rparr>"

definition exampleDb :: db where
  "exampleDb = \<lparr>agents = [practiceBot, agentA, agentB], matches = [openMatch],
                 submissions = [], payments = [payA, payB]\<rparr>"

definition exampleChallenge :: jobject where
  "exampleChallenge =
     [(''type'', JStr ''cipher_break''), (''title'', JStr ''Caesar''),
      (''description'', JStr ''Decode the message''), (''difficulty'', JNum 3),
      (''timeLimit'', JNum 300), (''cipher_type'', JStr ''caesar''),
      (''ciphertext'', JStr ''KHOOR''), (''plaintext'', JStr ''HELLO''),
      (''answer'', JStr ''HELLO'')]"

definition exampleGen :: generator where
  "exampleGen ty dif sd = Inr exampleChallenge"

definition entryA :: queue_entry where
  "entryA = \<lparr>agent = agentA, q_challenge_type = None, q_difficulty = 2, joined_at = 5\<rparr>"

definition entryB :: queue_entry where
  "entryB = \<lparr>agent = agentB, q_challenge_type = Some ''cipher_break'', q_difficulty = 1, joined_at = 7\<rparr>"




definition overflowDb :: db where
  "overflowDb = exampleDb\<lparr>payments :=
     [payA\<lparr>amount_wei := 9223372036854775807\<rparr>,
      payA\<lparr>p_id := ''p-3'', tx_hash := ''0x03'', amount_wei := 1\<rparr>]\<rparr>"

definition exampleServer :: server where
  "exampleServer = \<lparr>store = exampleDb, matchQueue = [], payouts = []\<rparr>"


definition practiceMatch :: match_row where
  "practiceMatch = default_match\<lparr>m_id := ''m-p'', agent1_id := ''agent-a'',
                 agent2_id := ''practice-bot-001'', challenge_type := ''cipher_break'',
                 challenge_data := exampleChallenge, time_limit := 120, entry_fee_wei := 0,
                 creator_id := Some ''agent-a'', opponent_id := Some ''practice-bot-001'',
                 status := Active, challenge_seed := Some ''ab12'', started_at := Some 90,
                 is_practice := 1\<rparr>"

definition practiceServer :: server where
  "practiceServer = \<lparr>store = exampleDb\<lparr>matches := [openMatch, practiceMatch]\<rparr>,
                      matchQueue = [], payouts = []\<rparr>"

definition exampleValidator :: validator where
  "exampleValidator challenge sol = Inr (field ''plaintext'' challenge = Some (JStr sol), 100)"

definition regularDb :: db where
  "regularDb = exampleDb\<lparr>matches := [practiceMatch\<lparr>is_practice := 0\<rparr>]\<rparr>"

text \<open>The values of \<open>parseEther\<close> at two decimal strings, and at \<open>'0.00001'\<close> below the minimum.\<close>

definition exampleParseEther :: "string \<Rightarrow> wei option" where
  "exampleParseEther s =
     (if s = ''0.0001'' then Some 100000000000000
      else if s = ''0.001'' then Some 1000000000000000
      else if s = ''0.00001'' then Some 10000000000000
      else None)"

definition exampleChain :: chain where
  "exampleChain h =
     (if h = ''0x0b'' then Some \<lparr>receipt_success = True,
           tx_to = ARENA_WALLET, tx_from = ''0xBB'',
           tx_value = 100000000000005\<rparr>
      else None)"

text \<open>Three create requests: one with an unknown type and a difficulty of 9, one without a type, one with a fee below the minimum.\<close>

definition unknownTypeRequest :: create_request where
  "unknownTypeRequest = \<lparr>challengeType = Some ''tic_tac_toe'', entryFee = Some ''0.0001'',
                          difficulty = Some 9, txHash = None\<rparr>"

definition noTypeRequest :: create_request where
  "noTypeRequest = \<lparr>challengeType = None, entryFee = Some ''0.0001'',
                     difficulty = None, txHash = None\<rparr>"

definition lowFeeRequest :: create_request where
  "lowFeeRequest = \<lparr>challengeType = Some ''cipher_break'', entryFee = Some ''0.00001'',
                     difficulty = Some 2, txHash = None\<rparr>"

text \<open>
  An engine to run the model with: the stream adds the position to the length of the seed,
  the cipher module shifts one of two messages by three letters, the code module asks for
  the square of a number, the hash module for two leading zeros.
\<close>

definition exampleStream :: stream_alg where
  "exampleStream s p = length s + p"

definition exampleCipher :: "int \<Rightarrow> seedState \<Rightarrow> module_out" where
  "exampleCipher d st =
     (if fst (drawBelow exampleStream 2 st) = 0
      then \<lparr>m_timeLimit = 300, m_public = [(''cipher_type'', JStr ''caesar''), (''ciphertext'', JStr ''KHOOR'')],
            m_key = CipherAnswer ''HELLO''\<rparr>
      else \<lparr>m_timeLimit = 300, m_public = [(''cipher_type'', JStr ''caesar''), (''ciphertext'', JStr ''GDHPRQ'')],
            m_key = CipherAnswer ''DAEMON''\<rparr>)"

definition exampleCode :: "int \<Rightarrow> seedState \<Rightarrow> module_out" where
  "exampleCode d st =
     \<lparr>m_timeLimit = 600, m_public = [(''description'', JStr ''Return the square of n'')],
      m_key = CodeAnswer [(JNum 2, JNum 4), (JNum 3, JNum 9), (JNum 5, JNum 25)]\<rparr>"

definition exampleHash :: "int \<Rightarrow> seedState \<Rightarrow> module_out" where
  "exampleHash d st =
     \<lparr>m_timeLimit = 900, m_public = [],
      m_key = HashAnswer [(''hunt_type'', JStr ''leading_zeros''), (''zeros'', JNum 2)]\<rparr>"

definition exampleEngine :: engine where
  "exampleEngine = \<lparr>stream = exampleStream, cipherModule = exampleCipher,
                     codeModule = exampleCode, hashModule = exampleHash\<rparr>"

text \<open>A sandbox that knows three programs: two that square their input and one that doubles it.\<close>

definition exampleSandbox :: sandbox where
  "exampleSandbox code input =
     (case input of
        JNum n \<Rightarrow>
          if code = ''n*n'' \<or> code = ''return n * n;'' then Some (JNum (n * n))
          else if code = ''n+n'' then Some (JNum (n + n))
          else None
      | _ \<Rightarrow> None)"

definition squares :: "(json \<times> json) list" where
  "squares = [(JNum 2, JNum 4), (JNum 3, JNum 9), (JNum 5, JNum 25)]"

section \<open>Lookups after updates and inserts\<close>

lemma sdiv_nonneg_10: "0 \<le> (k::int) \<Longrightarrow> k sdiv 10 = k div 10"
  by (cases "k = 0") (simp_all add: signed_divide_int_def)

lemma find_update_same:
  assumes "\<And>m. m_id (f m) = m_id m"
  shows "find (\<lambda>m. m_id m = i) (map (\<lambda>m. if m_id m = i then f m else m) xs)
         = map_option f (find (\<lambda>m. m_id m = i) xs)"
  using assms by (induction xs) auto

lemma getMatch_update_match:
  assumes "\<And>m. m_id (f m) = m_id m"
  shows "getMatch (update_match i f d) i = map_option f (getMatch d i)"
  using assms by (simp add: getMatch_def update_match_def find_update_same)

lemma find_append_fresh:
  "i \<notin> set (map m_id xs) \<Longrightarrow> find (\<lambda>m. m_id m = i) (xs @ [r]) = (if m_id r = i then Some r else None)"
  by (induction xs) auto

lemma getMatch_insert_match:
  "insert_match r d = Inr d' \<Longrightarrow> getMatch d' (m_id r) = Some r"
  by (auto simp: insert_match_def getMatch_def find_append_fresh split: if_splits)

section \<open>Match lists: most recent first\<close>

text \<open>
  The lists of matches that \<open>getAgentMatches\<close> and \<open>getActiveMatches\<close> return are in
  descending order of \<open>started_at\<close>, with the matches that have not started at the end.
\<close>

lemma getAgentMatches_recent_first:
  "sorted (map startedKey (getAgentMatches d agentId limit offset))"
  "sorted (map startedKey (getActiveMatches d))"
  by (simp_all add: getAgentMatches_def getActiveMatches_def take_map [symmetric] drop_map [symmetric]
        sorted_wrt_take sorted_wrt_drop del: take_map drop_map)

lemma startedKey_order:
  "startedKey m \<le> startedKey m' \<longleftrightarrow>
     (case (started_at m, started_at m') of
        (Some t, Some t') \<Rightarrow> t' \<le> t | (Some t, None) \<Rightarrow> True | (None, Some t') \<Rightarrow> False
      | (None, None) \<Rightarrow> True)"
  by (auto simp: startedKey_def split: option.splits)

section \<open>What a successful join stores\<close>

lemma getMatch_matches_cong: "matches d = matches d' \<Longrightarrow> getMatch d i = getMatch d' i"
  by (simp add: getMatch_def)

lemma recordPayment_matches: "recordPayment d p a h w f m = Inr d' \<Longrightarrow> matches d' = matches d"
  by (auto simp: recordPayment_def split: if_splits)

lemma joinHandler_success:
  assumes r: "joinHandler gen ch sv ag matchId txh pid now = (Response 200 rb, sv')"
  shows "\<exists>m c d1. getMatch (store sv) matchId = Some m \<and> status m = Open \<and>
           gen (Some (challenge_type m)) 3 (challenge_seed m) = Inr c \<and>
           joinCustomMatch (store sv) matchId (a_id ag) c (chTimeLimit c) now = Inr d1 \<and>
           matches (store sv') = matches d1"
proof (cases "\<not> strTruthy txh")
  case True
  with r show ?thesis by (simp add: joinHandler_def errorResponse_def)
next
  case T: False
  show ?thesis
  proof (cases "getMatch (store sv) matchId")
    case None
    with T r show ?thesis by (simp add: joinHandler_def errorResponse_def)
  next
    case M: (Some m)
    show ?thesis
    proof (cases "status m \<noteq> Open \<or> creator_id m = Some (a_id ag)")
      case True
      then have "joinHandler gen ch sv ag matchId txh pid now
                   = (errorResponse 400 ''Match is not open for joining'', sv) \<or>
                 joinHandler gen ch sv ag matchId txh pid now
                   = (errorResponse 400 ''Cannot join your own match'', sv)"
        using T M by (cases "status m \<noteq> Open") (simp_all add: joinHandler_def)
      with r show ?thesis by (auto simp: errorResponse_def)
    next
      case S: False
      show ?thesis
      proof (cases "paymentCheck ch (store sv) (the txh) (entry_fee_wei m) (wallet ag)")
        case (Inl e)
        with T M S r show ?thesis by (simp add: joinHandler_def errorResponse_def)
      next
        case P: (Inr msg)
        show ?thesis
        proof (cases msg)
          case (Some x)
          with T M S P r show ?thesis by (simp add: joinHandler_def errorResponse_def)
        next
          case N: None
          show ?thesis
          proof (cases "gen (Some (challenge_type m)) 3 (challenge_seed m)")
            case (Inl e)
            with T M S P N r show ?thesis by (simp add: joinHandler_def errorResponse_def)
          next
            case G: (Inr c)
            show ?thesis
            proof (cases "joinCustomMatch (store sv) matchId (a_id ag) c (chTimeLimit c) now")
              case (Inl e)
              with T M S P N G r show ?thesis by (simp add: joinHandler_def errorResponse_def)
            next
              case J: (Inr d1)
              show ?thesis
              proof (cases "ch (the txh)")
                case None
                with T M S P N G J r show ?thesis by (simp add: joinHandler_def errorResponse_def)
              next
                case X: (Some tx)
                show ?thesis
                proof (cases "recordPayment d1 pid (a_id ag) (the txh) (tx_value tx) (tx_from tx) (Some matchId)")
                  case (Inl e)
                  with T M S P N G J X r show ?thesis by (simp add: joinHandler_def errorResponse_def)
                next
                  case R: (Inr d2)
                  have m2: "matches d2 = matches d1" using R by (rule recordPayment_matches)
                  show ?thesis
                  proof (cases "case creator_id m of None \<Rightarrow> None | Some c \<Rightarrow> getAgent d2 c")
                    case None
                    with T M S P N G J X R r show ?thesis by (simp add: joinHandler_def errorResponse_def)
                  next
                    case (Some creator)
                    with T M S P N G J X R r have "sv' = sv\<lparr>store := d2\<rparr>"
                      by (simp add: joinHandler_def)
                    with M S G J m2 show ?thesis by simp
                  qed
                qed
              qed
            qed
          qed
        qed
      qed
    qed
  qed
qed

lemma joinCustomMatch_row:
  assumes "joinCustomMatch d i opp c lim0 now = Inr d1" "getMatch d i = Some m"
  shows "\<exists>row. getMatch d1 i = Some row \<and> challenge_type row = challenge_type m \<and>
           challenge_seed row = challenge_seed m \<and> challenge_data row = c \<and> status row = Active \<and>
           m_id row = m_id m"
  using assms
  by (auto simp: joinCustomMatch_def Let_def getMatch_update_match split: option.splits)

lemma joinHandler_stores_generated:
  assumes "joinHandler gen ch sv ag matchId txh pid now = (Response 200 rb, sv')"
  shows "\<exists>row0 row. getMatch (store sv) matchId = Some row0 \<and>
           getMatch (store sv') matchId = Some row \<and>
           challenge_type row = challenge_type row0 \<and> challenge_seed row = challenge_seed row0 \<and>
           status row = Active \<and>
           gen (Some (challenge_type row)) 3 (challenge_seed row) = Inr (challenge_data row)"
proof -
  from joinHandler_success [OF assms] obtain m c d1 where
    h: "getMatch (store sv) matchId = Some m"
       "gen (Some (challenge_type m)) 3 (challenge_seed m) = Inr c"
       "joinCustomMatch (store sv) matchId (a_id ag) c (chTimeLimit c) now = Inr d1"
       "matches (store sv') = matches d1" by blast
  from joinCustomMatch_row [OF h(3) h(1)] obtain row where
    r: "getMatch d1 matchId = Some row" "challenge_type row = challenge_type m"
       "challenge_seed row = challenge_seed m" "challenge_data row = c" "status row = Active" by blast
  have "getMatch (store sv') matchId = Some row"
    using r(1) h(4) getMatch_matches_cong [of "store sv'" d1 matchId] by simp
  with h r show ?thesis by simp
qed

section \<open>The example engine at two seeds\<close>

lemma exampleEngine_cipher_00ff10:
  "engineGen exampleEngine (Some ''cipher_break'') 3 (Some ''00ff10'') =
     Inr [(''type'', JStr ''cipher_break''), (''difficulty'', JNum 3), (''timeLimit'', JNum 300),
          (''cipher_type'', JStr ''caesar''), (''ciphertext'', JStr ''KHOOR''),
          (''plaintext'', JStr ''HELLO'')]"
  by (simp add: engineGen_def generate_def validateRequest_def unknownType_def familyOf_def
        catalogue_def requestDifficulty_def buildChallenge_def exampleEngine_def exampleCipher_def
        exampleStream_def drawBelow_def nextDraw_def initialState_def challengeObject_def
        headerFields_def Let_def)

lemma exampleEngine_cipher_00ff1:
  "engineGen exampleEngine (Some ''cipher_break'') 3 (Some ''00ff1'') =
     Inr [(''type'', JStr ''cipher_break''), (''difficulty'', JNum 3), (''timeLimit'', JNum 300),
          (''cipher_type'', JStr ''caesar''), (''ciphertext'', JStr ''GDHPRQ''),
          (''plaintext'', JStr ''DAEMON'')]"
  by (simp add: engineGen_def generate_def validateRequest_def unknownType_def familyOf_def
        catalogue_def requestDifficulty_def buildChallenge_def exampleEngine_def exampleCipher_def
        exampleStream_def drawBelow_def nextDraw_def initialState_def challengeObject_def
        headerFields_def Let_def)

lemma exampleEngine_join:
  "\<exists>rb sv'. joinHandler (engineGen exampleEngine) exampleChain exampleServer agentB ''m-1''
             (Some ''0x0b'') ''p-3'' 60 = (Response 200 rb, sv')"
  by (simp add: joinHandler_def strTruthy_def exampleServer_def exampleDb_def getMatch_def
        openMatch_def default_match_def agentB_def agentA_def practiceBot_def paymentCheck_def
        getPaymentByTxHash_def payA_def payB_def exampleChain_def exampleEngine_cipher_00ff10
        joinCustomMatch_def chTimeLimit_def field_def update_match_def
        recordPayment_def getAgent_def joinResponse_def Let_def)

section \<open>Match economics\<close>

text \<open>
  Claim C9. Every match that gains an opponent, by \<open>joinCustomMatch\<close> or by pairing two
  queued agents in \<open>tryMatchmaking\<close>, records \<open>pot_wei = 2 * entry_fee_wei\<close>,
  \<open>arena_cut_wei = pot_wei div 10\<close> (rounded down) and
  \<open>winner_payout_wei = pot_wei - arena_cut_wei\<close>, so that cut and payout add up to the pot
  exactly. Entry fees are never negative: the create handler refuses a fee below the minimum
  and the quick-match fee is the constant \<open>ENTRY_FEE_WEI\<close>.
\<close>

theorem match_economics_exact:
  "(joinCustomMatch d matchId opp cd lim0 now = Inr d' \<and> getMatch d matchId = Some row \<and>
      0 \<le> entry_fee_wei row \<longrightarrow>
      (\<exists>row'. getMatch d' matchId = Some row' \<and>
           pot_wei row' = 2 * entry_fee_wei row \<and>
           arena_cut_wei row' = pot_wei row' div 10 \<and>
           winner_payout_wei row' = pot_wei row' - arena_cut_wei row' \<and>
           arena_cut_wei row' + winner_payout_wei row' = pot_wei row')) \<and>
   (tryMatchmaking gen sv seed uuid now = (Inr (Some (n, ch)), sv') \<longrightarrow>
      (\<exists>row'. getMatch (store sv') uuid = Some row' \<and>
           pot_wei row' = 2 * entry_fee_wei row' \<and>
           arena_cut_wei row' = pot_wei row' div 10 \<and>
           winner_payout_wei row' = pot_wei row' - arena_cut_wei row' \<and>
           arena_cut_wei row' + winner_payout_wei row' = pot_wei row'))"
proof (intro conjI impI)
  assume a: "joinCustomMatch d matchId opp cd lim0 now = Inr d' \<and> getMatch d matchId = Some row \<and>
      0 \<le> entry_fee_wei row"
  then show "\<exists>row'. getMatch d' matchId = Some row' \<and>
           pot_wei row' = 2 * entry_fee_wei row \<and>
           arena_cut_wei row' = pot_wei row' div 10 \<and>
           winner_payout_wei row' = pot_wei row' - arena_cut_wei row' \<and>
           arena_cut_wei row' + winner_payout_wei row' = pot_wei row'"
    by (auto simp: joinCustomMatch_def Let_def getMatch_update_match sdiv_nonneg_10
             split: option.splits)
next
  assume b: "tryMatchmaking gen sv seed uuid now = (Inr (Some (n, ch)), sv')"
  then show "\<exists>row'. getMatch (store sv') uuid = Some row' \<and>
           pot_wei row' = 2 * entry_fee_wei row' \<and>
           arena_cut_wei row' = pot_wei row' div 10 \<and>
           winner_payout_wei row' = pot_wei row' - arena_cut_wei row' \<and>
           arena_cut_wei row' + winner_payout_wei row' = pot_wei row'"
    apply (auto simp: tryMatchmaking_def Let_def split: list.splits sum.splits option.splits)
    apply (drule getMatch_insert_match)
    apply (simp add: ENTRY_FEE_WEI_def sdiv_nonneg_10)
    done
qed


theorem match_economics_exact_witness:
  "(\<exists>d' row'. joinCustomMatch exampleDb ''m-1'' ''agent-b'' exampleChallenge (Some 300) 50 = Inr d' \<and>
       getMatch exampleDb ''m-1'' = Some openMatch \<and> 0 \<le> entry_fee_wei openMatch \<and>
       getMatch d' ''m-1'' = Some row' \<and> pot_wei row' = 200000000000010 \<and>
       arena_cut_wei row' = 20000000000001 \<and> winner_payout_wei row' = 180000000000009) \<and>
   (\<exists>n ch sv' row'.
       tryMatchmaking exampleGen (exampleServer\<lparr>matchQueue := [entryA, entryB]\<rparr>) ''5eed'' ''m-2'' 50
         = (Inr (Some (n, ch)), sv') \<and>
       getMatch (store sv') ''m-2'' = Some row' \<and> pot_wei row' = 2 * entry_fee_wei row' \<and>
       arena_cut_wei row' = pot_wei row' div 10 \<and>
       winner_payout_wei row' = pot_wei row' - arena_cut_wei row')"
proof -
  have j: "\<exists>d'. joinCustomMatch exampleDb ''m-1'' ''agent-b'' exampleChallenge (Some 300) 50 = Inr d'"
    by (simp add: joinCustomMatch_def getMatch_def exampleDb_def openMatch_def default_match_def)
  then obtain d' where d': "joinCustomMatch exampleDb ''m-1'' ''agent-b'' exampleChallenge (Some 300) 50 = Inr d'" ..
  have g: "getMatch exampleDb ''m-1'' = Some openMatch"
    by (simp add: getMatch_def exampleDb_def openMatch_def default_match_def)
  have f: "0 \<le> entry_fee_wei openMatch" "entry_fee_wei openMatch = 100000000000005"
    by (simp_all add: openMatch_def default_match_def)
  have t: "\<exists>n ch sv'. tryMatchmaking exampleGen (exampleServer\<lparr>matchQueue := [entryA, entryB]\<rparr>) ''5eed'' ''m-2'' 50
         = (Inr (Some (n, ch)), sv')"
    by (simp add: tryMatchmaking_def exampleServer_def exampleGen_def exampleChallenge_def chType_def
          chTimeLimit_def field_def insert_match_def exampleDb_def openMatch_def default_match_def Let_def)
  then obtain n ch sv' where sv': "tryMatchmaking exampleGen (exampleServer\<lparr>matchQueue := [entryA, entryB]\<rparr>) ''5eed'' ''m-2'' 50
         = (Inr (Some (n, ch)), sv')" by blast
  from match_economics_exact [of exampleDb "''m-1''" "''agent-b''" exampleChallenge "Some 300" 50 d' openMatch
       exampleGen "exampleServer\<lparr>matchQueue := [entryA, entryB]\<rparr>" "''5eed''" "''m-2''" n ch sv']
    d' g f sv'
  show ?thesis by auto
qed

section \<open>Matchmaking queue: first in, first out\<close>













text \<open>The balance query fails when the payments of the agent add up beyond 64 bits; the request then ends in an exception.\<close>

lemma queueHandler_balance_overflow:
  "getAgentPaymentBalance rn overflowDb ''agent-a'' = Inl IntegerOverflow \<and>
   queueHandler rn gen (exampleServer\<lparr>store := overflowDb\<rparr>) agentA None None 0 seed uuid now
     = (Unhandled IntegerOverflow, exampleServer\<lparr>store := overflowDb\<rparr>)"
  by (simp add: queueHandler_def canAgentAffordMatch_def getAgentPaymentBalance_def overflowDb_def
        exampleDb_def payA_def agentA_def castInteger_def int64Max_def)




section \<open>Practice matches change no agent\<close>

lemma getMatch_update_practice:
  assumes "getMatch d i = Some m"
  shows "getMatch (update_match i (\<lambda>m. m\<lparr>status := Completed, winner_id := w, completed_at := Some now\<rparr>) d) i
          = Some (m\<lparr>status := Completed, winner_id := w, completed_at := Some now\<rparr>)"
  using assms by (simp add: getMatch_update_match)

lemma updateELO_practice:
  "getMatch d i = Some m \<Longrightarrow> is_practice m \<noteq> 0 \<Longrightarrow> updateELO d i w = Inr d"
  by (simp add: updateELO_def)

lemma handleMatchPayout_practice:
  "getMatch d i = Some m \<Longrightarrow> is_practice m \<noteq> 0 \<Longrightarrow>
     handleMatchPayout d i w = NoPayoutNeeded \<or> handleMatchPayout d i w = SkippedPractice"
  by (simp add: handleMatchPayout_def)

lemma completeMatch_practice:
  assumes "getMatch d i = Some m" "is_practice m \<noteq> 0"
  shows "\<exists>note. completeMatch d i w now =
           (Inr note, update_match i (\<lambda>m. m\<lparr>status := Completed, winner_id := w, completed_at := Some now\<rparr>) d)
           \<and> (note = NoPayoutNeeded \<or> note = SkippedPractice)"
proof -
  let ?d1 = "update_match i (\<lambda>m. m\<lparr>status := Completed, winner_id := w, completed_at := Some now\<rparr>) d"
  have g: "getMatch ?d1 i = Some (m\<lparr>status := Completed, winner_id := w, completed_at := Some now\<rparr>)"
    using assms(1) by (rule getMatch_update_practice)
  have p: "is_practice (m\<lparr>status := Completed, winner_id := w, completed_at := Some now\<rparr>) \<noteq> 0"
    using assms(2) by simp
  have u: "updateELO ?d1 i w = Inr ?d1" using g p by (rule updateELO_practice)
  have h: "handleMatchPayout ?d1 i w = NoPayoutNeeded \<or> handleMatchPayout ?d1 i w = SkippedPractice"
    using g p by (rule handleMatchPayout_practice)
  show ?thesis using u h by (auto simp: completeMatch_def Let_def)
qed


lemma completeMatch_practice_eq:
  assumes "getMatch d i = Some m" "is_practice m \<noteq> 0"
  shows "completeMatch d i w now =
           (Inr (handleMatchPayout
                   (update_match i (\<lambda>m. m\<lparr>status := Completed, winner_id := w, completed_at := Some now\<rparr>) d) i w),
            update_match i (\<lambda>m. m\<lparr>status := Completed, winner_id := w, completed_at := Some now\<rparr>) d)"
proof -
  let ?d1 = "update_match i (\<lambda>m. m\<lparr>status := Completed, winner_id := w, completed_at := Some now\<rparr>) d"
  have g: "getMatch ?d1 i = Some (m\<lparr>status := Completed, winner_id := w, completed_at := Some now\<rparr>)"
    using assms(1) by (rule getMatch_update_practice)
  have p: "is_practice (m\<lparr>status := Completed, winner_id := w, completed_at := Some now\<rparr>) \<noteq> 0"
    using assms(2) by simp
  have u: "updateELO ?d1 i w = Inr ?d1" using g p by (rule updateELO_practice)
  show ?thesis using u by (simp add: completeMatch_def Let_def)
qed

lemma getMatch_submitSolution [simp]:
  "getMatch (submitSolution d uuid i a sol now) j = getMatch d j"
  by (simp add: getMatch_def submitSolution_def)

lemma getMatch_markSubmissionCorrect [simp]:
  "getMatch (markSubmissionCorrect d sid sc) j = getMatch d j"
  by (simp add: getMatch_def markSubmissionCorrect_def)

lemma agents_frame [simp]:
  "agents (submitSolution d uuid i a sol now) = agents d"
  "agents (markSubmissionCorrect d sid sc) = agents d"
  "agents (update_match i f d) = agents d"
  by (simp_all add: submitSolution_def markSubmissionCorrect_def update_match_def)

lemma submit_practice_frame:
  assumes "getMatch (store sv) i = Some m" "is_practice m \<noteq> 0"
  shows "agents (store (snd (submitHandler v sv ag i sol uuid now))) = agents (store sv) \<and>
         payouts (snd (submitHandler v sv ag i sol uuid now)) = payouts sv"
  using assms
  by (auto simp: submitHandler_def Let_def errorResponse_def completeMatch_practice_eq
           split: option.splits sum.splits prod.splits)

lemma practiceBotWins_frame:
  assumes "getMatch (store sv) i = Some m" "is_practice m \<noteq> 0"
  shows "agents (store (practiceBotWins sv i now)) = agents (store sv) \<and>
         payouts (practiceBotWins sv i now) = payouts sv"
  using assms
  by (auto simp: practiceBotWins_def completeMatch_practice_eq split: option.splits)


text \<open>
  Claim C10. Completing a practice match changes no agent and triggers no payout: for a
  match with \<open>is_practice\<close> set, \<open>updateELO\<close> returns the database as it is,
  \<open>handleMatchPayout\<close> returns early, \<open>completeMatch\<close> changes only \<open>status\<close>,
  \<open>winner_id\<close> and \<open>completed_at\<close> of that match row, and neither the submit handler
  nor the deferred PracticeBot completion touches the agents or hands a payout to
  \<open>sendPayout\<close>.
\<close>

theorem practice_completion_frame:
  assumes "getMatch (store sv) matchId = Some m" and "is_practice m \<noteq> 0"
  shows "updateELO (store sv) matchId winnerId = Inr (store sv) \<and>
         (handleMatchPayout (store sv) matchId winnerId = NoPayoutNeeded \<or>
          handleMatchPayout (store sv) matchId winnerId = SkippedPractice) \<and>
         (fst (completeMatch (store sv) matchId winnerId now) = Inr NoPayoutNeeded \<or>
          fst (completeMatch (store sv) matchId winnerId now) = Inr SkippedPractice) \<and>
         snd (completeMatch (store sv) matchId winnerId now) =
           (store sv)\<lparr>matches :=
              map (\<lambda>r. if m_id r = matchId
                        then r\<lparr>status := Completed, winner_id := winnerId, completed_at := Some now\<rparr>
                        else r) (matches (store sv))\<rparr> \<and>
         agents (snd (completeMatch (store sv) matchId winnerId now)) = agents (store sv) \<and>
         agents (store (snd (submitHandler v sv ag matchId sol uuid now))) = agents (store sv) \<and>
         payouts (snd (submitHandler v sv ag matchId sol uuid now)) = payouts sv \<and>
         agents (store (practiceBotWins sv matchId now)) = agents (store sv) \<and>
         payouts (practiceBotWins sv matchId now) = payouts sv"
proof -
  from completeMatch_practice [OF assms, of winnerId now]
  have c: "(fst (completeMatch (store sv) matchId winnerId now) = Inr NoPayoutNeeded \<or>
          fst (completeMatch (store sv) matchId winnerId now) = Inr SkippedPractice) \<and>
         snd (completeMatch (store sv) matchId winnerId now) =
           update_match matchId (\<lambda>m. m\<lparr>status := Completed, winner_id := winnerId, completed_at := Some now\<rparr>) (store sv)"
    by auto
  show ?thesis
    using c updateELO_practice [OF assms, of winnerId] handleMatchPayout_practice [OF assms, of winnerId]
      submit_practice_frame [OF assms, of v ag sol uuid now] practiceBotWins_frame [OF assms, of now]
    by (simp add: update_match_def)
qed

theorem practice_completion_frame_witness:
  "getMatch (store practiceServer) ''m-p'' = Some practiceMatch \<and> is_practice practiceMatch \<noteq> 0 \<and>
   updateELO (store practiceServer) ''m-p'' (Some ''agent-a'') = Inr (store practiceServer) \<and>
   agents (snd (completeMatch (store practiceServer) ''m-p'' (Some ''agent-a'') 99))
     = [practiceBot, agentA, agentB] \<and>
   matches (snd (completeMatch (store practiceServer) ''m-p'' (Some ''agent-a'') 99))
     = [openMatch, practiceMatch\<lparr>status := Completed, winner_id := Some ''agent-a'', completed_at := Some 99\<rparr>] \<and>
   agents (store (snd (submitHandler exampleValidator practiceServer agentA ''m-p'' (Some ''HELLO'') ''s-1'' 99)))
     = [practiceBot, agentA, agentB] \<and>
   payouts (snd (submitHandler exampleValidator practiceServer agentA ''m-p'' (Some ''HELLO'') ''s-1'' 99)) = []"
proof -
  have g: "getMatch (store practiceServer) ''m-p'' = Some practiceMatch"
    by (simp add: practiceServer_def getMatch_def openMatch_def practiceMatch_def default_match_def)
  have p: "is_practice practiceMatch \<noteq> 0"
    by (simp add: practiceMatch_def default_match_def)
  have a: "agents (store practiceServer) = [practiceBot, agentA, agentB]"
          "matches (store practiceServer) = [openMatch, practiceMatch]"
          "payouts practiceServer = []"
    by (simp_all add: practiceServer_def exampleDb_def)
  have i: "m_id openMatch \<noteq> ''m-p''" "m_id practiceMatch = ''m-p''"
    by (simp_all add: openMatch_def practiceMatch_def default_match_def)
  from practice_completion_frame [OF g p, of "Some ''agent-a''" 99 exampleValidator agentA "Some ''HELLO''" "''s-1''"]
  show ?thesis using g p a i by simp
qed

text \<open>A regular match does change the ratings: with both at 1000 the winner gains 16.\<close>

lemma regular_match_updates_ratings:
  "map elo (agents (snd (completeMatch regularDb ''m-p'' (Some ''agent-a'') 99))) = [984, 1016, 1010]"
  by (simp add: completeMatch_def regularDb_def exampleDb_def practiceMatch_def default_match_def
     update_match_def updateELO_def getMatch_def getAgent_def practiceBot_def agentA_def agentB_def
     expectedScore_def mathRound_def update_agent_def handleMatchPayout_def strTruthy_def Let_def)

section \<open>Validation of create requests\<close>

lemma createHandler_400_unchanged:
  assumes r: "fst (createHandler pe ch sv ag req seed uuid pid) = Response 400 body"
  shows "snd (createHandler pe ch sv ag req seed uuid pid) = sv"
proof (cases "\<not> strTruthy (challengeType req) \<or> \<not> strTruthy (entryFee req)")
  case True
  then show ?thesis by (simp add: createHandler_def)
next
  case A: False
  show ?thesis
  proof (cases "pe (the (entryFee req))")
    case None
    with A show ?thesis by (simp add: createHandler_def)
  next
    case W: (Some w)
    show ?thesis
    proof (cases "w < minFeeWei")
      case True
      with A W show ?thesis by (simp add: createHandler_def)
    next
      case B: False
      show ?thesis
      proof (cases "if strTruthy (txHash req)
                      then paymentCheck ch (store sv) (the (txHash req)) w (wallet ag)
                      else Inr None")
        case (Inl e)
        with A W B show ?thesis by (simp add: createHandler_def)
      next
        case P: (Inr msg)
        show ?thesis
        proof (cases msg)
          case (Some m)
          with A W B P show ?thesis by (simp add: createHandler_def)
        next
          case N: None
          show ?thesis
          proof (cases "createCustomMatch (store sv) uuid (a_id ag)
                            (if challengeType req = Some ''random'' then None else challengeType req)
                            w (numOr (difficulty req) 3) seed")
            case (Inl e)
            with A W B P N show ?thesis by (simp add: createHandler_def)
          next
            case C: (Inr d1)
            show ?thesis
            proof (cases "strTruthy (txHash req)")
              case False
              with A W B P N C r show ?thesis
                by (simp add: createHandler_def createResponse_def)
            next
              case T: True
              show ?thesis
              proof (cases "ch (the (txHash req))")
                case None
                with A W B P N C T r show ?thesis
                  by (simp add: createHandler_def errorResponse_def)
              next
                case X: (Some tx)
                show ?thesis
                proof (cases "recordPayment d1 pid (a_id ag) (the (txHash req))
                                        (tx_value tx) (tx_from tx) (Some uuid)")
                  case (Inl e)
                  with A W B P N C T X r show ?thesis
                    by (simp add: createHandler_def errorResponse_def)
                next
                  case (Inr d2)
                  with A W B P N C T X r show ?thesis
                    by (simp add: createHandler_def createResponse_def)
                qed
              qed
            qed
          qed
        qed
      qed
    qed
  qed
qed

lemma createHandler_accepts:
  assumes "strTruthy (challengeType req)" "challengeType req \<noteq> Some ''random''"
      and "strTruthy (entryFee req)" "pe (the (entryFee req)) = Some w" "minFeeWei \<le> w"
      and "\<not> strTruthy (txHash req)" "uuid \<notin> set (map m_id (matches (store sv)))"
  shows "\<exists>row. fst (createHandler pe ch sv ag req seed uuid pid) = createResponse uuid req w \<and>
           getMatch (store (snd (createHandler pe ch sv ag req seed uuid pid))) uuid = Some row \<and>
           challenge_type row = the (challengeType req) \<and> status row = Open \<and>
           challenge_data row = [] \<and> entry_fee_wei row = w \<and> challenge_seed row = Some seed"
proof -
  obtain ty where ty: "challengeType req = Some ty" using assms(1)
    by (auto simp: strTruthy_def split: option.splits)
  let ?r = "default_match\<lparr>m_id := uuid, agent1_id := a_id ag, agent2_id := [],
               challenge_type := ty, challenge_data := [], time_limit := 300,
               entry_fee_wei := w, creator_id := Some (a_id ag), status := Open,
               challenge_seed := Some seed\<rparr>"
  have ins: "insert_match ?r (store sv) = Inr ((store sv)\<lparr>matches := matches (store sv) @ [?r]\<rparr>)"
    using assms(7) by (simp add: insert_match_def)
  have g: "getMatch ((store sv)\<lparr>matches := matches (store sv) @ [?r]\<rparr>) uuid = Some ?r"
    using getMatch_insert_match [OF ins] by simp
  show ?thesis
    using assms ty ins g
    by (simp add: createHandler_def createCustomMatch_def numOr_def)
qed

text \<open>
  Every row the create handler adds is open and carries a fee of at least the minimum, so
  the fee of a match that can be joined is positive.
\<close>

lemma createCustomMatch_matches:
  assumes "createCustomMatch d uuid c ty w dif seed = Inr d1"
  shows "\<exists>r. matches d1 = matches d @ [r] \<and> entry_fee_wei r = w \<and> status r = Open"
  using assms
  by (auto simp: createCustomMatch_def insert_match_def split: option.splits if_splits)

lemma createHandler_new_rows:
  "matches (store (snd (createHandler pe ch sv ag req seed uuid pid))) = matches (store sv) \<or>
   (\<exists>r. matches (store (snd (createHandler pe ch sv ag req seed uuid pid))) = matches (store sv) @ [r] \<and>
        minFeeWei \<le> entry_fee_wei r \<and> status r = Open)"
proof (cases "\<not> strTruthy (challengeType req) \<or> \<not> strTruthy (entryFee req)")
  case True
  then show ?thesis by (simp add: createHandler_def)
next
  case A: False
  show ?thesis
  proof (cases "pe (the (entryFee req))")
    case None
    with A show ?thesis by (simp add: createHandler_def)
  next
    case W: (Some w)
    show ?thesis
    proof (cases "w < minFeeWei")
      case True
      with A W show ?thesis by (simp add: createHandler_def)
    next
      case B: False
      show ?thesis
      proof (cases "if strTruthy (txHash req)
                      then paymentCheck ch (store sv) (the (txHash req)) w (wallet ag)
                      else Inr None")
        case (Inl e)
        with A W B show ?thesis by (simp add: createHandler_def)
      next
        case P: (Inr msg)
        show ?thesis
        proof (cases msg)
          case (Some m)
          with A W B P show ?thesis by (simp add: createHandler_def)
        next
          case N: None
          show ?thesis
          proof (cases "createCustomMatch (store sv) uuid (a_id ag)
                            (if challengeType req = Some ''random'' then None else challengeType req)
                            w (numOr (difficulty req) 3) seed")
            case (Inl e)
            with A W B P N show ?thesis by (simp add: createHandler_def)
          next
            case C: (Inr d1)
            from createCustomMatch_matches [OF C] B obtain r where
              r: "matches d1 = matches (store sv) @ [r]" "minFeeWei \<le> entry_fee_wei r" "status r = Open"
              by auto
            show ?thesis
            proof (cases "strTruthy (txHash req)")
              case False
              with A W B P N C r show ?thesis by (simp add: createHandler_def)
            next
              case T: True
              show ?thesis
              proof (cases "ch (the (txHash req))")
                case None
                with A W B P N C T r show ?thesis by (simp add: createHandler_def)
              next
                case X: (Some tx)
                show ?thesis
                proof (cases "recordPayment d1 pid (a_id ag) (the (txHash req))
                                        (tx_value tx) (tx_from tx) (Some uuid)")
                  case (Inl e)
                  with A W B P N C T X r show ?thesis by (simp add: createHandler_def)
                next
                  case R: (Inr d2)
                  have "matches d2 = matches d1" using R by (rule recordPayment_matches)
                  with A W B P N C T X R r show ?thesis by (simp add: createHandler_def)
                qed
              qed
            qed
          qed
        qed
      qed
    qed
  qed
qed

text \<open>
  Claim C5, as the create handler has it. A request without \<open>challengeType\<close> or without
  \<open>entryFee\<close>, and a request whose fee is below \<open>10^14\<close> wei, is refused at once with
  status 400 and a message; every answer with status 400 leaves the server state as it
  was, so no match record is produced. The value of the type is not compared with the
  catalogue and the difficulty is not compared with any range: every other non-empty type
  except \<open>random\<close>, with a sufficient fee, no transaction hash and a new match id, produces
  an open match that stores that type. A request without difficulty is answered with
  difficulty 3.
\<close>

theorem create_request_validation:
  "(\<not> strTruthy (challengeType req) \<or> \<not> strTruthy (entryFee req) \<longrightarrow>
      createHandler pe ch sv ag req seed uuid pid
        = (errorResponse 400 ''challengeType and entryFee are required'', sv)) \<and>
   (strTruthy (challengeType req) \<and> strTruthy (entryFee req) \<and>
    pe (the (entryFee req)) = Some w \<and> w < minFeeWei \<longrightarrow>
      createHandler pe ch sv ag req seed uuid pid = (errorResponse 400 ''Entry fee too low'', sv)) \<and>
   (\<forall>body. fst (createHandler pe ch sv ag req seed uuid pid) = Response 400 body \<longrightarrow>
      snd (createHandler pe ch sv ag req seed uuid pid) = sv) \<and>
   (strTruthy (challengeType req) \<and> challengeType req \<noteq> Some ''random'' \<and>
    strTruthy (entryFee req) \<and> pe (the (entryFee req)) = Some w \<and> minFeeWei \<le> w \<and>
    \<not> strTruthy (txHash req) \<and> uuid \<notin> set (map m_id (matches (store sv))) \<longrightarrow>
      (\<exists>row. fst (createHandler pe ch sv ag req seed uuid pid) = createResponse uuid req w \<and>
         getMatch (store (snd (createHandler pe ch sv ag req seed uuid pid))) uuid = Some row \<and>
         challenge_type row = the (challengeType req) \<and> status row = Open \<and>
         challenge_data row = [] \<and> entry_fee_wei row = w \<and> challenge_seed row = Some seed)) \<and>
   (difficulty req = None \<longrightarrow>
      (\<exists>body. createResponse uuid req w = Response 200 body \<and>
         field ''difficulty'' body = Some (JNum 3)))"
proof (intro conjI impI allI)
  assume "\<not> strTruthy (challengeType req) \<or> \<not> strTruthy (entryFee req)"
  then show "createHandler pe ch sv ag req seed uuid pid
        = (errorResponse 400 ''challengeType and entryFee are required'', sv)"
    by (auto simp: createHandler_def)
next
  assume "strTruthy (challengeType req) \<and> strTruthy (entryFee req) \<and>
    pe (the (entryFee req)) = Some w \<and> w < minFeeWei"
  then show "createHandler pe ch sv ag req seed uuid pid = (errorResponse 400 ''Entry fee too low'', sv)"
    by (simp add: createHandler_def)
next
  fix body
  assume "fst (createHandler pe ch sv ag req seed uuid pid) = Response 400 body"
  then show "snd (createHandler pe ch sv ag req seed uuid pid) = sv"
    by (rule createHandler_400_unchanged)
next
  assume "strTruthy (challengeType req) \<and> challengeType req \<noteq> Some ''random'' \<and>
    strTruthy (entryFee req) \<and> pe (the (entryFee req)) = Some w \<and> minFeeWei \<le> w \<and>
    \<not> strTruthy (txHash req) \<and> uuid \<notin> set (map m_id (matches (store sv)))"
  then show "\<exists>row. fst (createHandler pe ch sv ag req seed uuid pid) = createResponse uuid req w \<and>
         getMatch (store (snd (createHandler pe ch sv ag req seed uuid pid))) uuid = Some row \<and>
         challenge_type row = the (challengeType req) \<and> status row = Open \<and>
         challenge_data row = [] \<and> entry_fee_wei row = w \<and> challenge_seed row = Some seed"
    using createHandler_accepts [of req pe w uuid sv ch ag seed pid] by blast
next
  assume "difficulty req = None"
  then show "\<exists>body. createResponse uuid req w = Response 200 body \<and>
         field ''difficulty'' body = Some (JNum 3)"
    by (simp add: createResponse_def field_def numOr_def)
qed


theorem create_request_validation_witness:
  "\<not> strTruthy (challengeType noTypeRequest) \<and>
   createHandler exampleParseEther exampleChain exampleServer agentA noTypeRequest ''5eed'' ''m-9'' ''p-9''
     = (errorResponse 400 ''challengeType and entryFee are required'', exampleServer) \<and>
   snd (createHandler exampleParseEther exampleChain exampleServer agentA noTypeRequest ''5eed'' ''m-9'' ''p-9'')
     = exampleServer \<and>
   difficulty noTypeRequest = None \<and>
   (\<exists>body. createResponse ''m-9'' noTypeRequest 100000000000000 = Response 200 body \<and>
      field ''difficulty'' body = Some (JNum 3)) \<and>
   strTruthy (challengeType lowFeeRequest) \<and> strTruthy (entryFee lowFeeRequest) \<and>
   exampleParseEther (the (entryFee lowFeeRequest)) = Some 10000000000000 \<and>
   10000000000000 < minFeeWei \<and>
   createHandler exampleParseEther exampleChain exampleServer agentA lowFeeRequest ''5eed'' ''m-9'' ''p-9''
     = (errorResponse 400 ''Entry fee too low'', exampleServer) \<and>
   strTruthy (challengeType unknownTypeRequest) \<and> challengeType unknownTypeRequest \<noteq> Some ''random'' \<and>
   strTruthy (entryFee unknownTypeRequest) \<and>
   exampleParseEther (the (entryFee unknownTypeRequest)) = Some 100000000000000 \<and>
   minFeeWei \<le> 100000000000000 \<and> \<not> strTruthy (txHash unknownTypeRequest) \<and>
   ''m-9'' \<notin> set (map m_id (matches (store exampleServer))) \<and>
   (\<exists>row. getMatch (store (snd (createHandler exampleParseEther exampleChain exampleServer agentA
              unknownTypeRequest ''5eed'' ''m-9'' ''p-9''))) ''m-9'' = Some row \<and>
      challenge_type row = ''tic_tac_toe'' \<and> status row = Open)"
proof -
  have a0: "\<not> strTruthy (challengeType noTypeRequest)"
    and a2: "difficulty noTypeRequest = None"
    by (simp_all add: noTypeRequest_def strTruthy_def)
  from a0 have a1: "\<not> strTruthy (challengeType noTypeRequest) \<or> \<not> strTruthy (entryFee noTypeRequest)"
    by (rule disjI1)
  have b: "strTruthy (challengeType lowFeeRequest)" "strTruthy (entryFee lowFeeRequest)"
      "exampleParseEther (the (entryFee lowFeeRequest)) = Some 10000000000000"
      "10000000000000 < minFeeWei"
    by (simp_all add: lowFeeRequest_def strTruthy_def exampleParseEther_def minFeeWei_def)
  have c: "strTruthy (challengeType unknownTypeRequest)" "challengeType unknownTypeRequest \<noteq> Some ''random''"
      "strTruthy (entryFee unknownTypeRequest)"
      "exampleParseEther (the (entryFee unknownTypeRequest)) = Some 100000000000000"
      "minFeeWei \<le> 100000000000000" "\<not> strTruthy (txHash unknownTypeRequest)"
      "''m-9'' \<notin> set (map m_id (matches (store exampleServer)))"
      "the (challengeType unknownTypeRequest) = ''tic_tac_toe''"
    by (simp_all add: unknownTypeRequest_def strTruthy_def exampleParseEther_def minFeeWei_def
          exampleServer_def exampleDb_def openMatch_def default_match_def)
  have e: "fst (errorResponse 400 ''challengeType and entryFee are required'', exampleServer)
            = Response 400 [(''error'', JStr ''challengeType and entryFee are required'')]"
    by (simp add: errorResponse_def)
  note t1 = create_request_validation [of noTypeRequest exampleParseEther exampleChain exampleServer agentA
              "''5eed''" "''m-9''" "''p-9''" 100000000000000]
  note t2 = create_request_validation [of lowFeeRequest exampleParseEther exampleChain exampleServer agentA
              "''5eed''" "''m-9''" "''p-9''" 10000000000000]
  note t3 = create_request_validation [of unknownTypeRequest exampleParseEther exampleChain exampleServer agentA
              "''5eed''" "''m-9''" "''p-9''" 100000000000000]
  from t1 a1 have r1: "createHandler exampleParseEther exampleChain exampleServer agentA noTypeRequest ''5eed'' ''m-9'' ''p-9''
     = (errorResponse 400 ''challengeType and entryFee are required'', exampleServer)" by blast
  from t1 r1 e have r1': "snd (createHandler exampleParseEther exampleChain exampleServer agentA noTypeRequest ''5eed'' ''m-9'' ''p-9'')
     = exampleServer" by simp
  from t1 a2 have r1'': "\<exists>body. createResponse ''m-9'' noTypeRequest 100000000000000 = Response 200 body \<and>
      field ''difficulty'' body = Some (JNum 3)" by blast
  from t2 b have r2: "createHandler exampleParseEther exampleChain exampleServer agentA lowFeeRequest ''5eed'' ''m-9'' ''p-9''
     = (errorResponse 400 ''Entry fee too low'', exampleServer)" by blast
  from t3 c have r3: "\<exists>row. getMatch (store (snd (createHandler exampleParseEther exampleChain exampleServer agentA
              unknownTypeRequest ''5eed'' ''m-9'' ''p-9''))) ''m-9'' = Some row \<and>
      challenge_type row = ''tic_tac_toe'' \<and> status row = Open" by auto
  show ?thesis using a0 a2 b c r1 r1' r1'' r2 r3 by blast
qed

text \<open>
  Claim C5 as stated fails: a create request with the type \<open>tic_tac_toe\<close>, which is not in
  the catalogue, and the difficulty 9 is answered with success and an open match record
  of that type is stored.
\<close>

theorem create_accepts_unknown_type_counterexample:
  "''tic_tac_toe'' \<notin> set challengeTypes \<and> \<not> (1 \<le> (9::int) \<and> (9::int) \<le> 5) \<and>
   challengeType unknownTypeRequest = Some ''tic_tac_toe'' \<and> difficulty unknownTypeRequest = Some 9 \<and>
   fst (createHandler exampleParseEther exampleChain exampleServer agentA unknownTypeRequest
          ''5eed'' ''m-9'' ''p-9'')
     = Response 200
         [(''success'', JBool True), (''match_id'', JStr ''m-9''),
          (''entry_fee'', JStr ''0.0001 ETH''),
          (''entry_fee_wei'', JNum 100000000000000), (''challenge_type'', JStr ''tic_tac_toe''),
          (''difficulty'', JNum 9),
          (''message'', JStr ''Custom match created! Pay entry fee to finalize.'')] \<and>
   map m_id (matches (store (snd (createHandler exampleParseEther exampleChain exampleServer agentA
          unknownTypeRequest ''5eed'' ''m-9'' ''p-9'')))) = [''m-1'', ''m-9''] \<and>
   map challenge_type (matches (store (snd (createHandler exampleParseEther exampleChain exampleServer
          agentA unknownTypeRequest ''5eed'' ''m-9'' ''p-9'')))) = [''cipher_break'', ''tic_tac_toe'']"
  by (simp add: createHandler_def unknownTypeRequest_def exampleParseEther_def strTruthy_def minFeeWei_def
        createCustomMatch_def insert_match_def exampleServer_def exampleDb_def openMatch_def
        default_match_def createResponse_def numOr_def challengeTypes_def)

section \<open>The public projection and the stored seed\<close>

lemma field_delete_key_same [simp]: "field k (delete_key k obj) = None"
  by (induction obj) (auto simp: field_def delete_key_def)

lemma field_delete_key_other [simp]: "k \<noteq> k' \<Longrightarrow> field k (delete_key k' obj) = field k obj"
  by (induction obj) (auto simp: field_def delete_key_def)

lemma map_of_replace_other:
  "k \<noteq> k' \<Longrightarrow> map_of (map (\<lambda>kv. if fst kv = k' then (k', v) else kv) obj) k = map_of obj k"
  by (induction obj) auto

lemma map_of_snoc_other:
  "k \<noteq> k' \<Longrightarrow> map_of (obj @ [(k', v)]) k = map_of obj k"
  by (induction obj) auto

lemma field_set_key_other [simp]: "k \<noteq> k' \<Longrightarrow> field k (set_key k' v obj) = field k obj"
  by (auto simp: field_def set_key_def map_of_replace_other map_add_def split: option.splits)

lemma safeChallenge_removes_keys:
  assumes "safeChallenge b cd = Inr safe"
  shows "field ''answer'' safe = None \<and> field ''solution'' safe = None \<and>
         field ''plaintext'' safe = None \<and> field ''key'' safe = None"
  using assms
  by (auto simp: safeChallenge_def Let_def split: if_splits option.splits json.splits sum.splits)

text \<open>
  Claim C1 fails on the code. The serving handlers remove \<open>answer\<close>, \<open>solution\<close>,
  \<open>plaintext\<close> and \<open>key\<close> from \<open>challenge_data\<close>, but they spread the whole match row into
  the answer, and the row holds \<open>challenge_type\<close> and \<open>challenge_seed\<close>. For a joined custom
  match, whatever the generator is, calling it with the served type, the fixed difficulty 3
  and the served seed returns the stored challenge in full, private fields included.
\<close>

theorem served_seed_regenerates_challenge:
  assumes "joinHandler gen ch sv ag matchId txh pid now = (Response 200 rb, sv')"
      and "getMatchDetail sv' matchId apiKey = Response 200 body"
  shows "\<exists>row safe. getMatch (store sv') matchId = Some row \<and>
           field ''challenge_data'' body = Some (JObj safe) \<and>
           field ''answer'' safe = None \<and> field ''solution'' safe = None \<and>
           field ''plaintext'' safe = None \<and> field ''key'' safe = None \<and>
           field ''challenge_type'' body = Some (JStr (challenge_type row)) \<and>
           field ''challenge_seed'' body = Some (optStr (challenge_seed row)) \<and>
           gen (Some (challenge_type row)) 3 (challenge_seed row) = Inr (challenge_data row)"
proof -
  from joinHandler_stores_generated [OF assms(1)] obtain row where
    row: "getMatch (store sv') matchId = Some row"
         "gen (Some (challenge_type row)) 3 (challenge_seed row) = Inr (challenge_data row)"
    by blast
  show ?thesis
  proof (cases "safeChallenge True (challenge_data row)")
    case (Inl e)
    with row(1) assms(2) show ?thesis by (simp add: getMatchDetail_def errorResponse_def)
  next
    case (Inr safe)
    with row(1) assms(2) have
      "field ''challenge_data'' body = Some (JObj safe)"
      "field ''challenge_type'' body = Some (JStr (challenge_type row))"
      "field ''challenge_seed'' body = Some (optStr (challenge_seed row))"
      by (auto simp: getMatchDetail_def Let_def matchColumns_def field_def)
    with row safeChallenge_removes_keys [OF Inr] show ?thesis by blast
  qed
qed

theorem served_seed_regenerates_challenge_witness:
  "\<exists>rb sv' body safe full other.
     joinHandler (engineGen exampleEngine) exampleChain exampleServer agentB ''m-1'' (Some ''0x0b'') ''p-3'' 60
       = (Response 200 rb, sv') \<and>
     getMatchDetail sv' ''m-1'' None = Response 200 body \<and>
     field ''challenge_data'' body = Some (JObj safe) \<and> field ''plaintext'' safe = None \<and>
     field ''challenge_type'' body = Some (JStr ''cipher_break'') \<and>
     field ''challenge_seed'' body = Some (JStr ''00ff10'') \<and>
     engineGen exampleEngine (Some ''cipher_break'') 3 (Some ''00ff10'') = Inr full \<and>
     field ''plaintext'' full = Some (JStr ''HELLO'') \<and>
     engineGen exampleEngine (Some ''cipher_break'') 3 (Some ''00ff1'') = Inr other \<and>
     field ''plaintext'' other = Some (JStr ''DAEMON'')"
proof -
  let ?full = "[(''type'', JStr ''cipher_break''), (''difficulty'', JNum 3), (''timeLimit'', JNum 300),
          (''cipher_type'', JStr ''caesar''), (''ciphertext'', JStr ''KHOOR''),
          (''plaintext'', JStr ''HELLO'')]"
  let ?other = "[(''type'', JStr ''cipher_break''), (''difficulty'', JNum 3), (''timeLimit'', JNum 300),
          (''cipher_type'', JStr ''caesar''), (''ciphertext'', JStr ''GDHPRQ''),
          (''plaintext'', JStr ''DAEMON'')]"
  from exampleEngine_join
  obtain rb sv' where j': "joinHandler (engineGen exampleEngine) exampleChain exampleServer agentB ''m-1''
      (Some ''0x0b'') ''p-3'' 60 = (Response 200 rb, sv')" by blast
  from joinHandler_stores_generated [OF j'] obtain row0 row where
    row: "getMatch (store exampleServer) ''m-1'' = Some row0" "getMatch (store sv') ''m-1'' = Some row"
         "challenge_type row = challenge_type row0" "challenge_seed row = challenge_seed row0"
         "engineGen exampleEngine (Some (challenge_type row)) 3 (challenge_seed row) = Inr (challenge_data row)"
    by blast
  have r0: "row0 = openMatch"
    using row(1) by (simp add: exampleServer_def exampleDb_def getMatch_def openMatch_def default_match_def)
  have ty: "challenge_type row = ''cipher_break''" "challenge_seed row = Some ''00ff10''"
    using row(3,4) r0 by (simp_all add: openMatch_def default_match_def)
  have cd: "challenge_data row = ?full"
    using row(5) ty by (simp add: exampleEngine_cipher_00ff10)
  have sc: "\<exists>safe. safeChallenge True ?full = Inr safe"
    by (simp add: safeChallenge_def delete_key_def field_def)
  then obtain safe0 where sc': "safeChallenge True ?full = Inr safe0" by blast
  have d: "\<exists>body. getMatchDetail sv' ''m-1'' None = Response 200 body"
    using row(2) cd sc' by (simp add: getMatchDetail_def Let_def)
  then obtain body where d': "getMatchDetail sv' ''m-1'' None = Response 200 body" by blast
  from served_seed_regenerates_challenge [OF j' d'] row(2) ty cd
  obtain safe where
     "field ''challenge_data'' body = Some (JObj safe)" "field ''plaintext'' safe = None"
     "field ''challenge_type'' body = Some (JStr ''cipher_break'')"
     "field ''challenge_seed'' body = Some (JStr ''00ff10'')"
    by (auto simp: optStr_def)
  moreover have "field ''plaintext'' ?full = Some (JStr ''HELLO'')"
      "field ''plaintext'' ?other = Some (JStr ''DAEMON'')"
    by (simp_all add: field_def)
  ultimately show ?thesis
    using j' d' exampleEngine_cipher_00ff10 exampleEngine_cipher_00ff1 by blast
qed

text \<open>The other serving handlers spread the row in the same way.\<close>

lemma safeMatch_serves_seed:
  assumes "safeMatch d m = Inr (JObj row)"
  shows "field ''challenge_seed'' row = Some (optStr (challenge_seed m)) \<and>
         field ''challenge_type'' row = Some (JStr (challenge_type m))"
  using assms by (auto simp: safeMatch_def matchColumns_def field_def split: sum.splits)

text \<open>What the projection does achieve: a stripped test case has no key but \<open>input\<close>.\<close>

lemma stripTestCase_input_only:
  assumes "stripTestCase False tc = Inr (JObj kvs)"
  shows "fst ` set kvs \<subseteq> {''input''}"
  using assms by (cases tc) (auto split: option.splits)

section \<open>The fallback for an omitted challenge type\<close>











section \<open>Scoring and the denylist of the code-puzzle judge\<close>

lemma containsToken_here: "containsToken tok (tok @ post)"
proof (cases "tok @ post")
  case Nil
  then show ?thesis by simp
next
  case (Cons c cs)
  have "take (length tok) (tok @ post) = tok" by simp
  with Cons show ?thesis by simp
qed

lemma containsToken_anywhere: "containsToken tok (pre @ tok @ post)"
  by (induction pre) (simp_all add: containsToken_here)

lemma denylisted_anywhere: "tok \<in> set denylist \<Longrightarrow> denylisted (pre @ tok @ post)"
  by (auto simp: denylisted_def list_ex_iff intro!: bexI[of _ tok] containsToken_anywhere)

lemma judge_flags: "list_all (\<lambda>b. b) (fst (judge sb sub tcs)) \<longleftrightarrow> (\<forall>tc \<in> set tcs. casePasses sb sub tc)"
  by (simp add: judge_def list_all_iff)

lemma validateCode_pass:
  assumes "\<not> denylisted sub" "\<forall>tc \<in> set tcs. casePasses sb sub tc"
  shows "valid (fst (validateCode sb tcs sub)) \<and>
         score (fst (validateCode sb tcs sub)) = 100 + max 10 (200 - int (length sub))"
  using assms judge_flags [of sb sub tcs]
  by (simp add: validateCode_def lengthBonus_def judge_def split: prod.splits)

lemma validateCode_fail:
  assumes "\<exists>tc \<in> set tcs. \<not> casePasses sb sub tc"
  shows "\<not> valid (fst (validateCode sb tcs sub)) \<and> score (fst (validateCode sb tcs sub)) = 0"
  using assms judge_flags [of sb sub tcs]
  by (auto simp: validateCode_def judge_def split: prod.splits)

text \<open>
  Claim C3. For a code-puzzle submission that is run: when every hidden test case passes
  the verdict is valid and the score is 100 plus the length bonus
  \<open>max 10 (200 - length)\<close>; when any test case fails the verdict is invalid and the score
  is 0. Hence of two submissions that pass every case the shorter one scores at least as
  much, and neither scores below 110.
\<close>

theorem code_puzzle_scoring:
  "(\<not> denylisted sub \<and> (\<forall>tc \<in> set tcs. casePasses sb sub tc) \<longrightarrow>
      valid (fst (validateCode sb tcs sub)) \<and>
      score (fst (validateCode sb tcs sub)) = 100 + max 10 (200 - int (length sub))) \<and>
   ((\<exists>tc \<in> set tcs. \<not> casePasses sb sub tc) \<longrightarrow>
      \<not> valid (fst (validateCode sb tcs sub)) \<and> score (fst (validateCode sb tcs sub)) = 0) \<and>
   (\<not> denylisted a \<and> \<not> denylisted b \<and> (\<forall>tc \<in> set tcs. casePasses sb a tc) \<and>
    (\<forall>tc \<in> set tcs. casePasses sb b tc) \<and> length a < length b \<longrightarrow>
      score (fst (validateCode sb tcs b)) \<le> score (fst (validateCode sb tcs a)) \<and>
      110 \<le> score (fst (validateCode sb tcs b)))"
proof (intro conjI impI)
  assume "\<not> denylisted sub \<and> (\<forall>tc \<in> set tcs. casePasses sb sub tc)"
  then show "valid (fst (validateCode sb tcs sub))"
    and "score (fst (validateCode sb tcs sub)) = 100 + max 10 (200 - int (length sub))"
    using validateCode_pass [of sub tcs sb] by simp_all
next
  assume "\<exists>tc \<in> set tcs. \<not> casePasses sb sub tc"
  then show "\<not> valid (fst (validateCode sb tcs sub))" and "score (fst (validateCode sb tcs sub)) = 0"
    using validateCode_fail [of tcs sb sub] by simp_all
next
  assume h: "\<not> denylisted a \<and> \<not> denylisted b \<and> (\<forall>tc \<in> set tcs. casePasses sb a tc) \<and>
    (\<forall>tc \<in> set tcs. casePasses sb b tc) \<and> length a < length b"
  then have score_a: "score (fst (validateCode sb tcs a)) = 100 + max 10 (200 - int (length a))"
    and score_b: "score (fst (validateCode sb tcs b)) = 100 + max 10 (200 - int (length b))"
    using validateCode_pass [of a tcs sb] validateCode_pass [of b tcs sb] by simp_all
  from h have "int (length a) < int (length b)" by simp
  with score_a score_b show "score (fst (validateCode sb tcs b)) \<le> score (fst (validateCode sb tcs a))"
    by (simp add: max_def)
  from score_b show "110 \<le> score (fst (validateCode sb tcs b))" by simp
qed

theorem code_puzzle_scoring_witness:
  "\<not> denylisted ''n*n'' \<and> \<not> denylisted ''return n * n;'' \<and>
   list_all (casePasses exampleSandbox ''n*n'') squares \<and>
   list_all (casePasses exampleSandbox ''return n * n;'') squares \<and>
   (\<exists>tc \<in> set squares. \<not> casePasses exampleSandbox ''n+n'' tc) \<and>
   length ''n*n'' < length ''return n * n;'' \<and>
   valid (fst (validateCode exampleSandbox squares ''n*n'')) \<and>
   score (fst (validateCode exampleSandbox squares ''n*n'')) = 297 \<and>
   \<not> valid (fst (validateCode exampleSandbox squares ''n+n'')) \<and>
   score (fst (validateCode exampleSandbox squares ''n+n'')) = 0 \<and>
   score (fst (validateCode exampleSandbox squares ''return n * n;''))
     \<le> score (fst (validateCode exampleSandbox squares ''n*n''))"
proof -
  have d: "\<not> denylisted ''n*n''" "\<not> denylisted ''return n * n;''" by code_simp+
  have p: "\<forall>tc \<in> set squares. casePasses exampleSandbox ''n*n'' tc"
          "\<forall>tc \<in> set squares. casePasses exampleSandbox ''return n * n;'' tc"
    by (simp_all add: squares_def casePasses_def exampleSandbox_def)
  have f: "\<exists>tc \<in> set squares. \<not> casePasses exampleSandbox ''n+n'' tc"
    by (simp add: squares_def casePasses_def exampleSandbox_def)
  have l: "length ''n*n'' < length ''return n * n;''" by simp
  from code_puzzle_scoring [of "''n*n''" squares exampleSandbox "''n*n''" "''return n * n;''"] d p l
  have a: "valid (fst (validateCode exampleSandbox squares ''n*n''))"
          "score (fst (validateCode exampleSandbox squares ''n*n'')) = 297"
          "score (fst (validateCode exampleSandbox squares ''return n * n;''))
             \<le> score (fst (validateCode exampleSandbox squares ''n*n''))"
    by simp_all
  from code_puzzle_scoring [of "''n+n''" squares exampleSandbox "''n*n''" "''return n * n;''"] f
  have b: "\<not> valid (fst (validateCode exampleSandbox squares ''n+n''))"
          "score (fst (validateCode exampleSandbox squares ''n+n'')) = 0"
    by blast+
  show ?thesis using d p f l a b by (simp add: list_all_iff)
qed

text \<open>
  Claim C4. A submission that contains a denylisted token, anywhere in its text, is
  answered with \<open>valid = False\<close> and \<open>score = 0\<close> and an empty execution trace, whatever the
  sandbox and the test cases are: nothing is executed. It is not sanitized either: whenever
  the judge executes code, the code is the submission as it was sent.
\<close>

theorem denylisted_rejected_unexecuted:
  "(denylisted sub \<longrightarrow>
      validateCode sb tcs sub = (\<lparr>valid = False, score = 0, perCaseDetail = None\<rparr>, []) \<and>
      validate sb cc hc (CodeAnswer tcs) sub = (\<lparr>valid = False, score = 0, perCaseDetail = None\<rparr>, [])) \<and>
   (tok \<in> set denylist \<longrightarrow> denylisted (pre @ tok @ post)) \<and>
   (\<forall>ex \<in> set (snd (validateCode sb tcs sub)). fst ex = sub)"
proof (intro conjI impI ballI)
  assume "denylisted sub"
  then show "validateCode sb tcs sub = (\<lparr>valid = False, score = 0, perCaseDetail = None\<rparr>, [])"
    and "validate sb cc hc (CodeAnswer tcs) sub = (\<lparr>valid = False, score = 0, perCaseDetail = None\<rparr>, [])"
    by (simp_all add: validateCode_def validate_def)
next
  assume "tok \<in> set denylist"
  then show "denylisted (pre @ tok @ post)" by (rule denylisted_anywhere)
next
  fix ex assume "ex \<in> set (snd (validateCode sb tcs sub))"
  then show "fst ex = sub"
    by (auto simp: validateCode_def judge_def split: if_splits)
qed

theorem denylisted_rejected_unexecuted_witness:
  "denylisted ''process.exit(0)'' \<and> ''eval'' \<in> set denylist \<and>
   validateCode exampleSandbox squares ''process.exit(0)''
     = (\<lparr>valid = False, score = 0, perCaseDetail = None\<rparr>, []) \<and>
   denylisted (''x='' @ ''eval'' @ ''(1)'') \<and>
   (JNum 2, JNum 4) \<in> set squares \<and>
   (''n*n'', JNum 2) \<in> set (snd (validateCode exampleSandbox squares ''n*n'')) \<and>
   list_all (\<lambda>ex. fst ex = ''n*n'') (snd (validateCode exampleSandbox squares ''n*n''))"
proof -
  have d: "denylisted ''process.exit(0)''" by code_simp
  have t: "''eval'' \<in> set denylist" by (simp add: denylist_def)
  have n: "\<not> denylisted ''n*n''" by code_simp
  have s: "(JNum 2, JNum 4) \<in> set squares" by (simp add: squares_def)
  have e: "(''n*n'', JNum 2) \<in> set (snd (validateCode exampleSandbox squares ''n*n''))"
    using n by (simp add: validateCode_def judge_def squares_def split: prod.splits)
  from denylisted_rejected_unexecuted [of "''process.exit(0)''" exampleSandbox squares "\<lambda>p s. p = s" "\<lambda>p s. False"
         "''eval''" "''x=''" "''(1)''"] d t
  have a: "validateCode exampleSandbox squares ''process.exit(0)''
     = (\<lparr>valid = False, score = 0, perCaseDetail = None\<rparr>, [])"
       "denylisted (''x='' @ ''eval'' @ ''(1)'')"
    by blast+
  from denylisted_rejected_unexecuted [of "''n*n''" exampleSandbox squares "\<lambda>p s. p = s" "\<lambda>p s. False"
         "''eval''" "''x=''" "''(1)''"]
  have b: "\<forall>ex \<in> set (snd (validateCode exampleSandbox squares ''n*n'')). fst ex = ''n*n''"
    by blast
  show ?thesis using d t s e a b by (simp add: list_all_iff)
qed


end
